theory Spec2Isabelle
  imports Main "HOL-Library.AList"
begin

section \<open>goog.net.XhrIo: data model\<close>

text \<open>
  The controller of \<^verbatim>\<open>closure/goog/net/xhrio.js\<close> as state-passing functions.
  Strings are ASCII character lists; the number of milliseconds and the HTTP status
  are integers. Logging (\<^verbatim>\<open>goog.log\<close>, \<^verbatim>\<open>formatMsg_\<close>) has no effect on the controller and is
  left out. \<^verbatim>\<open>dispatchEvent\<close> appends to the list of dispatched events: listeners are
  observers, they do not call back into the controller. A private name of the source
  ends in an underscore; here it is followed by a prime, as in \<open>xhr_'\<close>.
\<close>

subsection \<open>Strings\<close>

definition toLowerCase_char :: "char \<Rightarrow> char" where
  "toLowerCase_char c =
     (case map_of (zip ''ABCDEFGHIJKLMNOPQRSTUVWXYZ'' ''abcdefghijklmnopqrstuvwxyz'') c of
        Some d \<Rightarrow> d | None \<Rightarrow> c)"

definition toUpperCase_char :: "char \<Rightarrow> char" where
  "toUpperCase_char c =
     (case map_of (zip ''abcdefghijklmnopqrstuvwxyz'' ''ABCDEFGHIJKLMNOPQRSTUVWXYZ'') c of
        Some d \<Rightarrow> d | None \<Rightarrow> c)"

definition toLowerCase :: "string \<Rightarrow> string" where
  "toLowerCase str = map toLowerCase_char str"

definition toUpperCase :: "string \<Rightarrow> string" where
  "toUpperCase str = map toUpperCase_char str"

text \<open>
  Modelled from the spec: \<^verbatim>\<open>goog.string.caseInsensitiveEquals\<close> is not in this file. Header
  names are compared ignoring case: both sides lower-cased, then compared.
\<close>

definition caseInsensitiveEquals :: "string \<Rightarrow> string \<Rightarrow> bool" where
  "caseInsensitiveEquals str1 str2 \<longleftrightarrow> toLowerCase str1 = toLowerCase str2"

fun digits :: "nat \<Rightarrow> string" where
  "digits n = (if n < 10 then [''0123456789'' ! n]
               else digits (n div 10) @ [''0123456789'' ! (n mod 10)])"

declare digits.simps [simp del]

text \<open>The decimal text of a number, as string concatenation produces it.\<close>

definition String_of :: "int \<Rightarrow> string" where
  "String_of i = (if i < 0 then ''-'' @ digits (nat (- i)) else digits (nat i))"

subsection \<open>Events, error codes, options\<close>

text \<open>
  Modelled from the spec: \<^verbatim>\<open>goog.net.EventType\<close> is not in this file. These are the events
  the controller emits.
\<close>

datatype EventType =
  READY_STATE_CHANGE | COMPLETE | SUCCESS | ERROR | ABORT | TIMEOUT | READY

text \<open>
  Modelled from the spec: \<^verbatim>\<open>goog.net.ErrorCode\<close> is not in this file. These are the
  codes of the error taxonomy. The codes are numbers and \<^verbatim>\<open>NO_ERROR\<close> is 0, the one falsy
  code.
\<close>

datatype ErrorCode = EC_NO_ERROR | EC_EXCEPTION | EC_HTTP_ERROR | EC_ABORT | EC_TIMEOUT

text \<open>
  The options object of \<^verbatim>\<open>goog.net.XmlHttp.getOptions()\<close>, with the two keys of
  \<^verbatim>\<open>OptionType\<close> that this file reads.
\<close>

record XmlHttp_options =
  USE_NULL_FUNCTION :: bool
  LOCAL_REQUEST_ERROR :: bool

text \<open>
  Modelled from the spec: \<^verbatim>\<open>goog.net.XmlHttp.ReadyState\<close> is not in this file. Readiness
  runs from uninitialized over opened, sent and receiving to complete.
\<close>

definition UNINITIALIZED :: nat where "UNINITIALIZED = 0"
definition LOADING :: nat where "LOADING = 1"
definition LOADED :: nat where "LOADED = 2"
definition INTERACTIVE :: nat where "INTERACTIVE = 3"
definition COMPLETE_STATE :: nat where "COMPLETE_STATE = 4"

text \<open>
  \<^verbatim>\<open>goog.net.XhrIo.ResponseType\<close>. The enum of the source spells its first key
  \<^verbatim>\<open>DFAULT\<close>, so \<^verbatim>\<open>ResponseType.DEFAULT\<close> reads a missing key and is \<^verbatim>\<open>undefined\<close>.
\<close>

datatype ResponseType = RT_undefined | DFAULT | TEXT | DOCUMENT | BLOB | ARRAY_BUFFER

definition ResponseType_DEFAULT :: ResponseType where
  "ResponseType_DEFAULT = RT_undefined"

definition truthy_ResponseType :: "ResponseType \<Rightarrow> bool" where
  "truthy_ResponseType t \<longleftrightarrow> t \<noteq> RT_undefined \<and> t \<noteq> DFAULT"

subsection \<open>The transport handle\<close>

text \<open>A JavaScript value, as far as the accessors tell values apart.\<close>

datatype js_value = Undefined | Null | Str string | Obj string

datatype js_error = Error string | TypeError string

text \<open>Reading a property of the handle gives a value or throws.\<close>

datatype 'a property = Val 'a | Throws string

fun read_prop :: "'a property \<Rightarrow> js_error + 'a" where
  "read_prop (Val v) = Inr v"
| "read_prop (Throws m) = Inl (Error m)"

text \<open>
  The value of the handle's \<^verbatim>\<open>ontimeout\<close> property: missing, present and not a handler,
  or the controller's \<^verbatim>\<open>timeout_\<close> bound to it.
\<close>

datatype ontimeout_value = OT_undefined | OT_null | OT_timeout_'

text \<open>
  A readiness notification of the transport: the new \<^verbatim>\<open>readyState\<close> and the
  \<^verbatim>\<open>status\<close> property from then on.
\<close>

type_synonym notification = "nat \<times> int property"

text \<open>
  Modelled from the spec: the transport handle is given from outside (\<^verbatim>\<open>createXhr\<close>);
  it exposes open, send and abort, a readiness level, status, status text and response
  accessors, and notifies whenever its readiness changes. The record holds the
  properties the controller reads and writes, and what the handle does when the
  controller calls it: the notifications it delivers synchronously from inside
  \<^verbatim>\<open>open\<close>, \<^verbatim>\<open>send\<close> and \<^verbatim>\<open>abort\<close>, and whether \<^verbatim>\<open>open\<close> and \<^verbatim>\<open>send\<close> then throw.
  An optional property is \<open>None\<close> when the handle has no such key.
\<close>

record xhr =
  readyState :: nat
  status :: "int property"
  statusText :: "string property"
  responseText :: "string property"
  responseXML :: "js_value property"
  response :: "js_value property option"
  responseBody :: "js_value property option"
  mozResponseArrayBuffer :: "js_value property option"
  allResponseHeaders :: "string property"
  responseHeaderTable :: "(string \<times> string) list property"
  timeout :: "int option"
  ontimeout :: ontimeout_value
  withCredentials :: "bool option"
  responseType :: "ResponseType option"
  on_open :: "notification list"
  open_throws :: "string option"
  on_send :: "notification list"
  send_throws :: "string option"
  on_abort :: "notification list"

text \<open>The request body: a string, a \<^verbatim>\<open>FormData\<close> instance, or another object.\<close>

datatype content = StringContent string | FormDataContent | OtherContent string

text \<open>Calls into the transport, in the order they are made.\<close>

datatype xhr_call =
  X_open string string
  | X_setRequestHeader string string
  | X_send content
  | X_abort
  | X_detach bool

subsection \<open>Timers\<close>

text \<open>The two methods this file hands to \<^verbatim>\<open>goog.Timer.callOnce\<close>.\<close>

datatype timer_callback = CB_timeout_' | CB_onReadyStateChange_'

subsection \<open>The platform\<close>

text \<open>
  What the file reads from the rest of the library and from the browser:
  \<^verbatim>\<open>goog.userAgent.IE\<close>, \<^verbatim>\<open>goog.userAgent.isVersionOrHigher(9)\<close>, whether
  \<^verbatim>\<open>goog.global['FormData']\<close> exists, \<^verbatim>\<open>goog.net.HttpStatus.isSuccess\<close>,
  \<^verbatim>\<open>goog.uri.utils.getEffectiveScheme\<close>, \<^verbatim>\<open>goog.json.parse\<close>, and whether
  \<^verbatim>\<open>typeof goog == 'undefined'\<close> (the application is unloading).
\<close>

record platform =
  userAgent_IE :: bool
  userAgent_isVersionOrHigher_9 :: bool
  global_FormData :: bool
  HttpStatus_isSuccess :: "int \<Rightarrow> bool"
  getEffectiveScheme :: "string \<Rightarrow> string"
  json_parse :: "string \<Rightarrow> js_error + js_value"
  goog_undefined :: bool

subsection \<open>The controller\<close>

text \<open>
  The fields of the constructor, \<^verbatim>\<open>disposed_\<close> of \<^verbatim>\<open>goog.Disposable\<close>, and three
  fields for what the controller does to the outside: the events dispatched, the
  timers pending in \<^verbatim>\<open>goog.Timer\<close> (identifier, callback, delay) with the next
  identifier, and the calls made into transport handles.
\<close>

record XhrIo =
  headers :: "(string \<times> string) list"
  active_' :: bool
  xhr_' :: "xhr option"
  xhrOptions_' :: "XmlHttp_options option"
  lastUri_' :: string
  lastMethod_' :: string
  lastErrorCode_' :: ErrorCode
  lastError_' :: string
  errorDispatched_' :: bool
  inSend_' :: bool
  inOpen_' :: bool
  inAbort_' :: bool
  timeoutInterval_' :: int
  timeoutId_' :: "nat option"
  responseType_' :: ResponseType
  withCredentials_' :: bool
  useXhr2Timeout_' :: bool
  disposed_' :: bool
  dispatched :: "EventType list"
  timers :: "(nat \<times> timer_callback \<times> int) list"
  timer_seq :: nat
  xhr_log :: "xhr_call list"

section \<open>Operations of the controller\<close>

subsection \<open>Constants\<close>

definition CONTENT_TYPE_HEADER :: string where
  "CONTENT_TYPE_HEADER = ''Content-Type''"

definition METHODS_WITH_FORM_DATA :: "string list" where
  "METHODS_WITH_FORM_DATA = [''POST'', ''PUT'']"

definition FORM_CONTENT_TYPE :: string where
  "FORM_CONTENT_TYPE = ''application/x-www-form-urlencoded;charset=utf-8''"

text \<open>
  \<^verbatim>\<open>HTTP_SCHEME_PATTERN.test\<close>: the pattern \<^verbatim>\<open>/^https?$/i\<close> matches the whole string
  against http or https, ignoring case.
\<close>

definition HTTP_SCHEME_PATTERN_test :: "string \<Rightarrow> bool" where
  "HTTP_SCHEME_PATTERN_test scheme \<longleftrightarrow>
     toLowerCase scheme = ''http'' \<or> toLowerCase scheme = ''https''"

subsection \<open>Timeout interval, events, timers\<close>

definition getTimeoutInterval :: "XhrIo \<Rightarrow> int" where
  "getTimeoutInterval x = timeoutInterval_' x"

definition setTimeoutInterval :: "int \<Rightarrow> XhrIo \<Rightarrow> XhrIo" where
  "setTimeoutInterval ms x = x\<lparr>timeoutInterval_' := max 0 ms\<rparr>"

definition dispatchEvent :: "EventType \<Rightarrow> XhrIo \<Rightarrow> XhrIo" where
  "dispatchEvent e x = x\<lparr>dispatched := dispatched x @ [e]\<rparr>"

text \<open>
  Modelled from the spec: \<^verbatim>\<open>goog.Timer\<close> is not in this file.
  \<^verbatim>\<open>goog.Timer.callOnce\<close> schedules one call after a delay and returns the timer's
  identifier, here \<open>timer_seq\<close> of the state before; \<^verbatim>\<open>goog.Timer.clear\<close> cancels it.
\<close>

definition Timer_callOnce :: "timer_callback \<Rightarrow> int \<Rightarrow> XhrIo \<Rightarrow> XhrIo" where
  "Timer_callOnce cb delay x =
     x\<lparr>timers := timers x @ [(timer_seq x, cb, delay)], timer_seq := Suc (timer_seq x)\<rparr>"

definition Timer_clear :: "nat \<Rightarrow> XhrIo \<Rightarrow> XhrIo" where
  "Timer_clear i x = x\<lparr>timers := filter (\<lambda>t. fst t \<noteq> i) (timers x)\<rparr>"

subsection \<open>Readiness, status, success\<close>

definition getReadyState :: "XhrIo \<Rightarrow> nat" where
  "getReadyState x = (case xhr_' x of Some h \<Rightarrow> readyState h | None \<Rightarrow> UNINITIALIZED)"

definition isActive :: "XhrIo \<Rightarrow> bool" where
  "isActive x \<longleftrightarrow> xhr_' x \<noteq> None"

definition isComplete :: "XhrIo \<Rightarrow> bool" where
  "isComplete x \<longleftrightarrow> getReadyState x = COMPLETE_STATE"

text \<open>The body of the try block of \<^verbatim>\<open>getStatus\<close>, then the function with its catch.\<close>

definition getStatus_try :: "XhrIo \<Rightarrow> js_error + int" where
  "getStatus_try x =
     (if getReadyState x > LOADED then
        (case xhr_' x of Some h \<Rightarrow> read_prop (status h)
         | None \<Rightarrow> Inl (TypeError ''null has no properties''))
      else Inr (- 1))"

definition getStatus :: "XhrIo \<Rightarrow> int" where
  "getStatus x = (case getStatus_try x of Inr v \<Rightarrow> v | Inl e \<Rightarrow> - 1)"

definition getStatusText_try :: "XhrIo \<Rightarrow> js_error + string" where
  "getStatusText_try x =
     (if getReadyState x > LOADED then
        (case xhr_' x of Some h \<Rightarrow> read_prop (statusText h)
         | None \<Rightarrow> Inl (TypeError ''null has no properties''))
      else Inr [])"

definition getStatusText :: "XhrIo \<Rightarrow> string" where
  "getStatusText x = (case getStatusText_try x of Inr v \<Rightarrow> v | Inl e \<Rightarrow> [])"

definition isLastUriEffectiveSchemeHttp_' :: "platform \<Rightarrow> XhrIo \<Rightarrow> bool" where
  "isLastUriEffectiveSchemeHttp_' env x =
     (let scheme = getEffectiveScheme env (lastUri_' x)
      in HTTP_SCHEME_PATTERN_test scheme)"

definition isSuccess :: "platform \<Rightarrow> XhrIo \<Rightarrow> bool" where
  "isSuccess env x =
     (let status = getStatus x
      in HttpStatus_isSuccess env status \<or>
         status = 0 \<and> \<not> isLastUriEffectiveSchemeHttp_' env x)"

subsection \<open>Clean-up and error dispatch\<close>

text \<open>
  A key of \<^verbatim>\<open>xhrOptions_\<close>. The field is set and cleared together with \<^verbatim>\<open>xhr_\<close>, and
  every read in the source is on a path where \<^verbatim>\<open>xhr_\<close> is set or the controller active:
  the options are there at every read (\<open>send_well_formed\<close>, \<open>run_well_formed\<close> below), and
  the value for a missing object is never used.
\<close>

definition xhrOption :: "(XmlHttp_options \<Rightarrow> bool) \<Rightarrow> XhrIo \<Rightarrow> bool" where
  "xhrOption key x = (case xhrOptions_' x of Some opts \<Rightarrow> key opts | None \<Rightarrow> False)"

definition cleanUpTimeoutTimer_' :: "XhrIo \<Rightarrow> XhrIo" where
  "cleanUpTimeoutTimer_' x =
     (let x1 = (case xhr_' x of
                  Some h \<Rightarrow>
                    if useXhr2Timeout_' x then x\<lparr>xhr_' := Some (h\<lparr>ontimeout := OT_null\<rparr>)\<rparr> else x
                | None \<Rightarrow> x)
      in case timeoutId_' x1 of
           Some i \<Rightarrow> (Timer_clear i x1)\<lparr>timeoutId_' := None\<rparr>
         | None \<Rightarrow> x1)"

text \<open>
  \<^verbatim>\<open>cleanUpXhr_\<close>. The assignment to \<^verbatim>\<open>onreadystatechange\<close> of the released handle is
  recorded as \<open>X_detach\<close> (with \<open>True\<close> for \<^verbatim>\<open>goog.nullFunction\<close>); an exception it
  throws is caught and logged.
\<close>

definition cleanUpXhr_' :: "bool \<Rightarrow> XhrIo \<Rightarrow> XhrIo" where
  "cleanUpXhr_' opt_fromDispose x =
     (case xhr_' x of
        None \<Rightarrow> x
      | Some h \<Rightarrow>
          let x1 = cleanUpTimeoutTimer_' x;
              clearedOnReadyStateChange = xhrOption USE_NULL_FUNCTION x1;
              x2 = x1\<lparr>xhr_' := None, xhrOptions_' := None\<rparr>;
              x3 = (if \<not> opt_fromDispose then dispatchEvent READY x2 else x2)
          in x3\<lparr>xhr_log := xhr_log x3 @ [X_detach clearedOnReadyStateChange]\<rparr>)"

definition dispatchErrors_' :: "XhrIo \<Rightarrow> XhrIo" where
  "dispatchErrors_' x =
     (if \<not> errorDispatched_' x then
        dispatchEvent ERROR (dispatchEvent COMPLETE (x\<lparr>errorDispatched_' := True\<rparr>))
      else x)"

subsection \<open>The readiness handler\<close>

definition onReadyStateChangeHelper_' :: "platform \<Rightarrow> XhrIo \<Rightarrow> XhrIo" where
  "onReadyStateChangeHelper_' env x =
     (if \<not> active_' x then x
      else if goog_undefined env then x
      else if xhrOption LOCAL_REQUEST_ERROR x \<and> getReadyState x = COMPLETE_STATE \<and>
              getStatus x = 2 then x
      else if inSend_' x \<and> getReadyState x = COMPLETE_STATE then
        Timer_callOnce CB_onReadyStateChange_' 0 x
      else
        let x1 = dispatchEvent READY_STATE_CHANGE x
        in if isComplete x1 then
             let x2 = x1\<lparr>active_' := False\<rparr>;
                 x3 = (if isSuccess env x2 then
                         dispatchEvent SUCCESS (dispatchEvent COMPLETE x2)
                       else
                         dispatchErrors_'
                           (x2\<lparr>lastErrorCode_' := EC_HTTP_ERROR,
                               lastError_' :=
                                 getStatusText x2 @ '' ['' @ String_of (getStatus x2) @ '']''\<rparr>))
             in cleanUpXhr_' False x3
           else x1)"

definition onReadyStateChangeEntryPoint_' :: "platform \<Rightarrow> XhrIo \<Rightarrow> XhrIo" where
  "onReadyStateChangeEntryPoint_' env x = onReadyStateChangeHelper_' env x"

definition onReadyStateChange_' :: "platform \<Rightarrow> XhrIo \<Rightarrow> XhrIo" where
  "onReadyStateChange_' env x =
     (if disposed_' x then x
      else if \<not> inOpen_' x \<and> \<not> inSend_' x \<and> \<not> inAbort_' x then
        onReadyStateChangeEntryPoint_' env x
      else onReadyStateChangeHelper_' env x)"

subsection \<open>Calls into the transport\<close>

text \<open>
  Modelled from the spec: the transport invokes its notification point whenever its
  readiness changes. In a notification the handle takes its new readiness and calls its
  \<^verbatim>\<open>onreadystatechange\<close>, which \<^verbatim>\<open>send\<close> bound to \<^verbatim>\<open>onReadyStateChange_\<close>. A handle the
  controller has released is detached and notifies no more.
\<close>

definition xhr_readiness :: "notification \<Rightarrow> xhr \<Rightarrow> xhr" where
  "xhr_readiness n h = h\<lparr>readyState := fst n, status := snd n\<rparr>"

definition notify :: "platform \<Rightarrow> notification \<Rightarrow> XhrIo \<Rightarrow> XhrIo" where
  "notify env n x =
     (case xhr_' x of
        None \<Rightarrow> x
      | Some h \<Rightarrow> onReadyStateChange_' env (x\<lparr>xhr_' := Some (xhr_readiness n h)\<rparr>))"

text \<open>Modelled from the spec: the transport can notify synchronously from inside its own
  \<^verbatim>\<open>open\<close>, \<^verbatim>\<open>send\<close> and \<^verbatim>\<open>abort\<close>, and \<^verbatim>\<open>open\<close> and \<^verbatim>\<open>send\<close> can throw. In
  \<^verbatim>\<open>this.xhr_.abort()\<close>, \<^verbatim>\<open>this.xhr_.open(method, url, true)\<close> and
  \<^verbatim>\<open>this.xhr_.send(content)\<close>: the call is recorded, the handle delivers its
  notifications, and \<^verbatim>\<open>open\<close> and \<^verbatim>\<open>send\<close> return the message of what they throw.\<close>

definition xhr_abort :: "platform \<Rightarrow> XhrIo \<Rightarrow> XhrIo" where
  "xhr_abort env x =
     (case xhr_' x of
        None \<Rightarrow> x
      | Some h \<Rightarrow> fold (notify env) (on_abort h) (x\<lparr>xhr_log := xhr_log x @ [X_abort]\<rparr>))"

definition xhr_open :: "platform \<Rightarrow> string \<Rightarrow> string \<Rightarrow> xhr \<Rightarrow> XhrIo \<Rightarrow> string option \<times> XhrIo" where
  "xhr_open env method url h x =
     (open_throws h,
      fold (notify env) (on_open h) (x\<lparr>xhr_log := xhr_log x @ [X_open method url]\<rparr>))"

definition xhr_send :: "platform \<Rightarrow> content \<Rightarrow> xhr \<Rightarrow> XhrIo \<Rightarrow> string option \<times> XhrIo" where
  "xhr_send env c h x =
     (send_throws h,
      fold (notify env) (on_send h) (x\<lparr>xhr_log := xhr_log x @ [X_send c]\<rparr>))"

subsection \<open>Abort, error, timeout, dispose\<close>

definition abort :: "platform \<Rightarrow> ErrorCode option \<Rightarrow> XhrIo \<Rightarrow> XhrIo" where
  "abort env opt_failureCode x =
     (if xhr_' x \<noteq> None \<and> active_' x then
        let x1 = x\<lparr>active_' := False, inAbort_' := True\<rparr>;
            x2 = xhr_abort env x1;
            x3 = x2\<lparr>inAbort_' := False\<rparr>;
            x4 = x3\<lparr>lastErrorCode_' :=
                      (case opt_failureCode of
                         None \<Rightarrow> EC_ABORT
                       | Some c \<Rightarrow> if c = EC_NO_ERROR then EC_ABORT else c)\<rparr>
        in cleanUpXhr_' False (dispatchEvent ABORT (dispatchEvent COMPLETE x4))
      else x)"

definition error_' :: "platform \<Rightarrow> ErrorCode \<Rightarrow> string \<Rightarrow> XhrIo \<Rightarrow> XhrIo" where
  "error_' env errorCode err x =
     (let x1 = x\<lparr>active_' := False\<rparr>;
          x2 = (if xhr_' x1 \<noteq> None then
                  (xhr_abort env (x1\<lparr>inAbort_' := True\<rparr>))\<lparr>inAbort_' := False\<rparr>
                else x1);
          x3 = x2\<lparr>lastError_' := err, lastErrorCode_' := errorCode\<rparr>
      in cleanUpXhr_' False (dispatchErrors_' x3))"

definition timeout_' :: "platform \<Rightarrow> XhrIo \<Rightarrow> XhrIo" where
  "timeout_' env x =
     (if goog_undefined env then x
      else if xhr_' x \<noteq> None then
        let x1 = x\<lparr>lastError_' :=
                     ''Timed out after '' @ String_of (timeoutInterval_' x) @ ''ms, aborting'',
                   lastErrorCode_' := EC_TIMEOUT\<rparr>
        in abort env (Some EC_TIMEOUT) (dispatchEvent TIMEOUT x1)
      else x)"

definition disposeInternal :: "platform \<Rightarrow> XhrIo \<Rightarrow> XhrIo" where
  "disposeInternal env x =
     (if xhr_' x \<noteq> None then
        let x1 = (if active_' x then
                    (xhr_abort env (x\<lparr>active_' := False, inAbort_' := True\<rparr>))\<lparr>inAbort_' := False\<rparr>
                  else x)
        in cleanUpXhr_' True x1
      else x)"

text \<open>
  Modelled from the spec: \<^verbatim>\<open>dispose\<close> and \<^verbatim>\<open>isDisposed\<close> of \<^verbatim>\<open>goog.Disposable\<close> are not
  in this file. An explicit dispose destroys the controller: it marks it disposed, which
  every notification checks first, and runs the teardown \<^verbatim>\<open>disposeInternal\<close>, once.
\<close>

definition dispose :: "platform \<Rightarrow> XhrIo \<Rightarrow> XhrIo" where
  "dispose env x = (if disposed_' x then x else disposeInternal env (x\<lparr>disposed_' := True\<rparr>))"

subsection \<open>send\<close>

definition shouldUseXhr2Timeout_' :: "platform \<Rightarrow> xhr \<Rightarrow> bool" where
  "shouldUseXhr2Timeout_' env h \<longleftrightarrow>
     userAgent_IE env \<and> userAgent_isVersionOrHigher_9 env \<and>
     timeout h \<noteq> None \<and> ontimeout h \<noteq> OT_undefined"

definition isContentTypeHeader_' :: "string \<Rightarrow> bool" where
  "isContentTypeHeader_' header \<longleftrightarrow> caseInsensitiveEquals CONTENT_TYPE_HEADER header"

text \<open>
  Modelled from the spec: \<^verbatim>\<open>goog.structs.Map\<close> is not in this file. The header map is
  ordered and keeps its keys in the order they were first set: \<^verbatim>\<open>set\<close> replaces
  the value of a key it has and appends a new key.
\<close>

definition Map_set :: "string \<Rightarrow> string \<Rightarrow> (string \<times> string) list \<Rightarrow> (string \<times> string) list" where
  "Map_set key v m = AList.update key v m"

text \<open>
  The headers of one request (from \<^verbatim>\<open>this.headers.clone()\<close> to the content-type
  default of \<^verbatim>\<open>send\<close>).
\<close>

definition send_headers :: "platform \<Rightarrow> XhrIo \<Rightarrow> string \<Rightarrow> content \<Rightarrow> (string \<times> string) list option \<Rightarrow> (string \<times> string) list" where
  "send_headers env x method c opt_headers =
     (let headers0 = headers x;
          headers1 = (case opt_headers of
                        Some hs \<Rightarrow> fold (\<lambda>(key, v) m. Map_set key v m) hs headers0
                      | None \<Rightarrow> headers0);
          contentTypeKey = find isContentTypeHeader_' (map fst headers1);
          contentIsFormData = (global_FormData env \<and> c = FormDataContent)
      in if method \<in> set METHODS_WITH_FORM_DATA \<and> contentTypeKey = None \<and>
            \<not> contentIsFormData
         then Map_set CONTENT_TYPE_HEADER FORM_CONTENT_TYPE headers1
         else headers1)"

text \<open>
  The last try block of \<^verbatim>\<open>send\<close> with its catch. The block is entered with a handle;
  without one its first read of the handle throws inside the block.
\<close>

definition send_try :: "platform \<Rightarrow> content \<Rightarrow> XhrIo \<Rightarrow> XhrIo" where
  "send_try env c x =
     (let x1 = cleanUpTimeoutTimer_' x
      in case xhr_' x1 of
           None \<Rightarrow> error_' env EC_EXCEPTION ''null has no properties'' x1
         | Some h \<Rightarrow>
             let x2 = (if timeoutInterval_' x1 > 0 then
                         let x1a = x1\<lparr>useXhr2Timeout_' := shouldUseXhr2Timeout_' env h\<rparr>
                         in if useXhr2Timeout_' x1a then
                              x1a\<lparr>xhr_' := Some (h\<lparr>timeout := Some (timeoutInterval_' x1a),
                                                    ontimeout := OT_timeout_'\<rparr>)\<rparr>
                            else
                              (Timer_callOnce CB_timeout_' (timeoutInterval_' x1a) x1a)
                                \<lparr>timeoutId_' := Some (timer_seq x1a)\<rparr>
                       else x1);
                 (thrown, x3) = xhr_send env c h (x2\<lparr>inSend_' := True\<rparr>)
             in (case thrown of
                   None \<Rightarrow> x3\<lparr>inSend_' := False\<rparr>
                 | Some err \<Rightarrow> error_' env EC_EXCEPTION err x3))"

text \<open>
  \<^verbatim>\<open>send\<close>, with the handle and the options that \<^verbatim>\<open>createXhr\<close> and \<^verbatim>\<open>getOptions\<close> give
  for this request. The result is the exception thrown to the caller, if any, and the
  state left behind. After \<^verbatim>\<open>open\<close> the code reads \<^verbatim>\<open>this.xhr_\<close> outside any try block
  (\<^verbatim>\<open>'withCredentials' in this.xhr_\<close> at the latest), a TypeError when the handle was
  released from inside \<^verbatim>\<open>open\<close>.
\<close>

definition send :: "platform \<Rightarrow> xhr \<Rightarrow> XmlHttp_options \<Rightarrow> string \<Rightarrow> string option \<Rightarrow> content option \<Rightarrow> (string \<times> string) list option \<Rightarrow> XhrIo \<Rightarrow> js_error option \<times> XhrIo" where
  "send env created options url opt_method opt_content opt_headers x =
     (if xhr_' x \<noteq> None then
        (Some (Error (''[goog.net.XhrIo] Object is active with another request='' @
                      lastUri_' x @ ''; newUri='' @ url)), x)
      else
        let method = (case opt_method of
                        None \<Rightarrow> ''GET''
                      | Some m \<Rightarrow> if m = [] then ''GET'' else toUpperCase m);
            x1 = x\<lparr>lastUri_' := url, lastError_' := [], lastErrorCode_' := EC_NO_ERROR,
                   lastMethod_' := method, errorDispatched_' := False, active_' := True,
                   xhr_' := Some created, xhrOptions_' := Some options\<rparr>;
            (thrown, x2) = xhr_open env method url created (x1\<lparr>inOpen_' := True\<rparr>)
        in case thrown of
             Some err \<Rightarrow> (None, error_' env EC_EXCEPTION err x2)
           | None \<Rightarrow>
               let x3 = x2\<lparr>inOpen_' := False\<rparr>;
                   c = (case opt_content of None \<Rightarrow> StringContent [] | Some c' \<Rightarrow> c');
                   hdrs = send_headers env x3 method c opt_headers
               in (case xhr_' x3 of
                    None \<Rightarrow> (Some (TypeError ''null has no properties''), x3)
                  | Some h \<Rightarrow>
                      let h1 = h\<lparr>responseType :=
                                    (if truthy_ResponseType (responseType_' x3)
                                     then Some (responseType_' x3) else responseType h),
                                  withCredentials :=
                                    (case withCredentials h of
                                       Some b \<Rightarrow> Some (withCredentials_' x3)
                                     | None \<Rightarrow> None)\<rparr>;
                          x4 = x3\<lparr>xhr_' := Some h1,
                                  xhr_log := xhr_log x3 @
                                    map (\<lambda>(key, v). X_setRequestHeader key v) hdrs\<rparr>
                      in (None, send_try env c x4)))"

subsection \<open>Response accessors\<close>

text \<open>
  An accessor whose body is one try block with a catch that returns is a total function;
  \<open>_try\<close> is the body of its try block. An accessor without a try block returns the
  exception it lets through as \<open>Inl\<close>.
\<close>

definition getResponseText_try :: "XhrIo \<Rightarrow> js_error + string" where
  "getResponseText_try x =
     (case xhr_' x of Some h \<Rightarrow> read_prop (responseText h) | None \<Rightarrow> Inr [])"

definition getResponseText :: "XhrIo \<Rightarrow> string" where
  "getResponseText x = (case getResponseText_try x of Inr v \<Rightarrow> v | Inl e \<Rightarrow> [])"

definition getResponseBody_try :: "XhrIo \<Rightarrow> js_error + js_value" where
  "getResponseBody_try x =
     (case xhr_' x of
        Some h \<Rightarrow> (case responseBody h of Some p \<Rightarrow> read_prop p | None \<Rightarrow> Inr Null)
      | None \<Rightarrow> Inr Null)"

definition getResponseBody :: "XhrIo \<Rightarrow> js_value" where
  "getResponseBody x = (case getResponseBody_try x of Inr v \<Rightarrow> v | Inl e \<Rightarrow> Null)"

definition getResponseXml_try :: "XhrIo \<Rightarrow> js_error + js_value" where
  "getResponseXml_try x =
     (case xhr_' x of Some h \<Rightarrow> read_prop (responseXML h) | None \<Rightarrow> Inr Null)"

definition getResponseXml :: "XhrIo \<Rightarrow> js_value" where
  "getResponseXml x = (case getResponseXml_try x of Inr v \<Rightarrow> v | Inl e \<Rightarrow> Null)"

definition getResponseJson :: "platform \<Rightarrow> string option \<Rightarrow> XhrIo \<Rightarrow> js_error + js_value" where
  "getResponseJson env opt_xssiPrefix x =
     (case xhr_' x of
        None \<Rightarrow> Inr Undefined
      | Some h \<Rightarrow>
          (case read_prop (responseText h) of
             Inl e \<Rightarrow> Inl e
           | Inr responseText0 \<Rightarrow>
               let responseText1 =
                     (case opt_xssiPrefix of
                        None \<Rightarrow> responseText0
                      | Some pre \<Rightarrow>
                          if pre \<noteq> [] \<and> take (length pre) responseText0 = pre
                          then drop (length pre) responseText0 else responseText0)
               in json_parse env responseText1))"

definition getResponse_try :: "XhrIo \<Rightarrow> js_error + js_value" where
  "getResponse_try x =
     (case xhr_' x of
        None \<Rightarrow> Inr Null
      | Some h \<Rightarrow>
          (case response h of
             Some p \<Rightarrow> read_prop p
           | None \<Rightarrow>
               if responseType_' x = ResponseType_DEFAULT \<or> responseType_' x = TEXT then
                 (case read_prop (responseText h) of Inl e \<Rightarrow> Inl e | Inr t \<Rightarrow> Inr (Str t))
               else if responseType_' x = ARRAY_BUFFER then
                 (case mozResponseArrayBuffer h of Some p \<Rightarrow> read_prop p | None \<Rightarrow> Inr Null)
               else Inr Null))"

definition getResponse :: "XhrIo \<Rightarrow> js_value" where
  "getResponse x = (case getResponse_try x of Inr v \<Rightarrow> v | Inl e \<Rightarrow> Null)"

text \<open>
  The handle's \<^verbatim>\<open>getResponseHeader(key)\<close>: the value of the header named, matched
  ignoring case, or null; or the call throws.
\<close>

definition xhr_getResponseHeader :: "xhr \<Rightarrow> string \<Rightarrow> js_error + js_value" where
  "xhr_getResponseHeader h key =
     (case read_prop (responseHeaderTable h) of
        Inl e \<Rightarrow> Inl e
      | Inr tbl \<Rightarrow>
          (case find (\<lambda>kv. caseInsensitiveEquals (fst kv) key) tbl of
             Some kv \<Rightarrow> Inr (Str (snd kv))
           | None \<Rightarrow> Inr Null))"

definition getResponseHeader :: "string \<Rightarrow> XhrIo \<Rightarrow> js_error + js_value" where
  "getResponseHeader key x =
     (case xhr_' x of
        Some h \<Rightarrow> if isComplete x then xhr_getResponseHeader h key else Inr Undefined
      | None \<Rightarrow> Inr Undefined)"

definition getAllResponseHeaders :: "XhrIo \<Rightarrow> js_error + string" where
  "getAllResponseHeaders x =
     (case xhr_' x of
        Some h \<Rightarrow> if isComplete x then read_prop (allResponseHeaders h) else Inr []
      | None \<Rightarrow> Inr [])"

subsection \<open>Construction and what happens to a controller\<close>

text \<open>The constructor, with nothing dispatched, no timer pending and no call made.\<close>

definition new_XhrIo :: XhrIo where
  "new_XhrIo =
     \<lparr>headers = [], active_' = False, xhr_' = None, xhrOptions_' = None, lastUri_' = [],
      lastMethod_' = [], lastErrorCode_' = EC_NO_ERROR, lastError_' = [],
      errorDispatched_' = False, inSend_' = False, inOpen_' = False, inAbort_' = False,
      timeoutInterval_' = 0, timeoutId_' = None, responseType_' = ResponseType_DEFAULT,
      withCredentials_' = False, useXhr2Timeout_' = False, disposed_' = False,
      dispatched = [], timers = [], timer_seq = 0, xhr_log = []\<rparr>"

text \<open>
  What can happen to a controller between two calls of \<^verbatim>\<open>send\<close>: the transport
  notifies a readiness change, a pending timer fires and calls the method it was given,
  the transport calls the \<^verbatim>\<open>ontimeout\<close> handler it holds, or the caller calls
  \<^verbatim>\<open>abort\<close>, \<^verbatim>\<open>dispose\<close> or \<^verbatim>\<open>setTimeoutInterval\<close>.
\<close>

datatype stimulus =
  Notification notification
  | TimerFires nat
  | NativeTimeout
  | CallAbort "ErrorCode option"
  | CallDispose
  | CallSetTimeoutInterval int

definition timer_fires :: "platform \<Rightarrow> nat \<Rightarrow> XhrIo \<Rightarrow> XhrIo" where
  "timer_fires env i x =
     (case find (\<lambda>t. fst t = i) (timers x) of
        None \<Rightarrow> x
      | Some t \<Rightarrow>
          let x1 = x\<lparr>timers := filter (\<lambda>t. fst t \<noteq> i) (timers x)\<rparr>
          in (case fst (snd t) of
                CB_timeout_' \<Rightarrow> timeout_' env x1
              | CB_onReadyStateChange_' \<Rightarrow> onReadyStateChange_' env x1))"

definition native_timeout :: "platform \<Rightarrow> XhrIo \<Rightarrow> XhrIo" where
  "native_timeout env x =
     (case xhr_' x of
        Some h \<Rightarrow> if ontimeout h = OT_timeout_' then timeout_' env x else x
      | None \<Rightarrow> x)"

fun step :: "platform \<Rightarrow> stimulus \<Rightarrow> XhrIo \<Rightarrow> XhrIo" where
  "step env (Notification n) x = notify env n x"
| "step env (TimerFires i) x = timer_fires env i x"
| "step env NativeTimeout x = native_timeout env x"
| "step env (CallAbort c) x = abort env c x"
| "step env CallDispose x = dispose env x"
| "step env (CallSetTimeoutInterval ms) x = setTimeoutInterval ms x"

definition run :: "platform \<Rightarrow> stimulus list \<Rightarrow> XhrIo \<Rightarrow> XhrIo" where
  "run env sts x = fold (step env) sts x"

subsection \<open>A platform and transport handles to run the controller on\<close>

text \<open>
  Modelled from the spec: \<^verbatim>\<open>goog.net.HttpStatus.isSuccess\<close>,
  \<^verbatim>\<open>goog.uri.utils.getEffectiveScheme\<close> and \<^verbatim>\<open>goog.json.parse\<close> are not in this
  file. For the examples, status 200 and 304 are success, the effective scheme of a URI
  is what stands before its first colon, in lower case, and the parser accepts any text
  but the empty one. The browser of the example is not Internet Explorer.
\<close>

definition example_platform :: platform where
  "example_platform =
     \<lparr>userAgent_IE = False, userAgent_isVersionOrHigher_9 = False, global_FormData = True,
      HttpStatus_isSuccess = (\<lambda>st. st = 200 \<or> st = 304),
      getEffectiveScheme = (\<lambda>uri. toLowerCase (takeWhile (\<lambda>c. c \<noteq> CHR '':'') uri)),
      json_parse = (\<lambda>t. if t = [] then Inl (Error ''Invalid JSON string'') else Inr (Obj t)),
      goog_undefined = False\<rparr>"

definition example_IE9 :: platform where
  "example_IE9 = example_platform\<lparr>userAgent_IE := True, userAgent_isVersionOrHigher_9 := True\<rparr>"

text \<open>
  A fresh handle of a browser with the level 2 timeout properties: nothing is readable
  yet, \<^verbatim>\<open>open\<close> and \<^verbatim>\<open>send\<close> return without a notification, \<^verbatim>\<open>abort\<close> notifies
  completion with status 0.
\<close>

definition example_xhr :: xhr where
  "example_xhr =
     \<lparr>readyState = 0, status = Throws ''not available'',
      statusText = Throws ''not available'', responseText = Throws ''not available'',
      responseXML = Throws ''not available'', response = None, responseBody = None,
      mozResponseArrayBuffer = None, allResponseHeaders = Throws ''not available'',
      responseHeaderTable = Throws ''not available'', timeout = Some 0, ontimeout = OT_null,
      withCredentials = Some False, responseType = None, on_open = [], open_throws = None,
      on_send = [], send_throws = None, on_abort = [(4, Val 0)]\<rparr>"

definition example_options :: XmlHttp_options where
  "example_options = \<lparr>USE_NULL_FUNCTION = False, LOCAL_REQUEST_ERROR = False\<rparr>"

text \<open>
  A handle that notifies completion with status 404 from inside \<^verbatim>\<open>send\<close> and then
  throws.
\<close>

definition example_failing_xhr :: xhr where
  "example_failing_xhr = example_xhr\<lparr>on_send := [(4, Val 404)], send_throws := Some ''boom''\<rparr>"

text \<open>
  A controller with a request in flight: a POST of a form body, sent from a new
  controller.
\<close>

definition example_in_flight :: XhrIo where
  "example_in_flight =
     snd (send example_platform example_xhr example_options ''http://x/y'' (Some ''post'')
            (Some (StringContent ''a=1'')) None new_XhrIo)"

text \<open>A complete response with status 0 to a request for a local file is a success.\<close>

definition example_local_file :: XhrIo where
  "example_local_file =
     new_XhrIo\<lparr>lastUri_' := ''file:///tmp/a.txt'', active_' := True,
       xhr_' := Some (example_xhr\<lparr>readyState := 4, status := Val 0\<rparr>),
       xhrOptions_' := Some example_options\<rparr>"

text \<open>
  A handle that has completed and throws on every read, and the controller that holds
  it.
\<close>

definition example_unreadable_xhr :: xhr where
  "example_unreadable_xhr =
     example_xhr\<lparr>readyState := 4, response := Some (Throws ''not available''),
       responseBody := Some (Throws ''not available'')\<rparr>"

definition example_unreadable :: XhrIo where
  "example_unreadable =
     new_XhrIo\<lparr>active_' := True, xhr_' := Some example_unreadable_xhr,
       xhrOptions_' := Some example_options\<rparr>"

text \<open>
  A handle with a cached response: \<^verbatim>\<open>open\<close> notifies readiness 1, \<^verbatim>\<open>send\<close> notifies
  completion with status 200 before it returns.
\<close>

definition example_cached_xhr :: xhr where
  "example_cached_xhr =
     example_xhr\<lparr>on_open := [(1, Throws ''not available'')], on_send := [(4, Val 200)]\<rparr>"

section \<open>Predicates for the properties\<close>

text \<open>
  The handle and the controller without what a readiness notification may change: the
  handle's readiness and status, the events dispatched and the timers.
\<close>

definition hcore :: "xhr \<Rightarrow> xhr" where
  "hcore h = h\<lparr>readyState := 0, status := Val 0\<rparr>"

definition core :: "XhrIo \<Rightarrow> XhrIo" where
  "core x = x\<lparr>xhr_' := map_option hcore (xhr_' x), dispatched := [], timers := [], timer_seq := 0\<rparr>"

text \<open>
  \<open>quiet x x'\<close>: from \<open>x\<close> to \<open>x'\<close> only \<^verbatim>\<open>READY_STATE_CHANGE\<close> was dispatched and only
  calls of \<^verbatim>\<open>onReadyStateChange_\<close> were scheduled; the request is as it was.
\<close>

definition quiet :: "XhrIo \<Rightarrow> XhrIo \<Rightarrow> bool" where
  "quiet x x' \<longleftrightarrow>
     core x' = core x \<and>
     (\<exists>k. dispatched x' = dispatched x @ replicate k READY_STATE_CHANGE) \<and>
     (\<exists>ts. timers x' = timers x @ ts \<and> (\<forall>t\<in>set ts. fst (snd t) = CB_onReadyStateChange_')) \<and>
     timer_seq x \<le> timer_seq x'"









text \<open>
  \<open>paired es\<close>: every \<^verbatim>\<open>ERROR\<close> in \<open>es\<close> stands directly after a \<^verbatim>\<open>COMPLETE\<close> of its own.
\<close>

fun paired :: "EventType list \<Rightarrow> bool" where
  "paired [] = True"
| "paired [e] = (e \<noteq> ERROR)"
| "paired (e # e' # es) =
     (e \<noteq> ERROR \<and> (if e' = ERROR then e = COMPLETE \<and> paired es else paired (e' # es)))"

text \<open>
  \<open>error_guard x x'\<close>: from \<open>x\<close> to \<open>x'\<close> the controller dispatched \<^verbatim>\<open>ERROR\<close> at most
  once, after a \<^verbatim>\<open>COMPLETE\<close>, not at all when \<^verbatim>\<open>errorDispatched_\<close> was set in \<open>x\<close>, and
  the flag is set in \<open>x'\<close> when it was set or an \<^verbatim>\<open>ERROR\<close> was dispatched.
\<close>

definition error_guard :: "XhrIo \<Rightarrow> XhrIo \<Rightarrow> bool" where
  "error_guard x x' \<longleftrightarrow>
     (\<exists>new. dispatched x' = dispatched x @ new \<and> paired new \<and>
        count_list new ERROR \<le> (if errorDispatched_' x then 0 else 1) \<and>
        (errorDispatched_' x \<or> ERROR \<in> set new \<longrightarrow> errorDispatched_' x'))"

text \<open>
  The two timeout mechanisms. The native one is armed when the handle holds the
  controller's \<^verbatim>\<open>timeout_\<close> as its \<^verbatim>\<open>ontimeout\<close>; the fallback is armed when
  \<^verbatim>\<open>timeoutId_\<close> names a pending timer that calls \<^verbatim>\<open>timeout_\<close>.
\<close>

definition native_armed :: "XhrIo \<Rightarrow> bool" where
  "native_armed x \<longleftrightarrow> (case xhr_' x of Some h \<Rightarrow> ontimeout h = OT_timeout_' | None \<Rightarrow> False)"

definition fallback_armed :: "XhrIo \<Rightarrow> bool" where
  "fallback_armed x \<longleftrightarrow>
     (case timeoutId_' x of
        Some i \<Rightarrow> (i, CB_timeout_') \<in> set (map (\<lambda>t. (fst t, fst (snd t))) (timers x))
      | None \<Rightarrow> False)"

text \<open>
  \<open>open_inv x0 x\<close>: what notifications from inside \<^verbatim>\<open>open\<close> keep of the state \<open>x0\<close> in
  which \<^verbatim>\<open>open\<close> was called: the handle, up to its readiness, on an active controller; or
  the handle was released, with the timeout timer cleared.
\<close>

definition open_inv :: "XhrIo \<Rightarrow> XhrIo \<Rightarrow> bool" where
  "open_inv x0 x \<longleftrightarrow>
     useXhr2Timeout_' x = useXhr2Timeout_' x0 \<and> timeoutInterval_' x = timeoutInterval_' x0 \<and>
     (case xhr_' x of
        Some h \<Rightarrow> active_' x \<and> map_option hcore (xhr_' x0) = Some (hcore h)
      | None \<Rightarrow> timeoutId_' x = None)"

text \<open>The headers passed to transport handles by \<^verbatim>\<open>setRequestHeader\<close>, in order.\<close>

definition requestHeadersOf :: "xhr_call list \<Rightarrow> (string \<times> string) list" where
  "requestHeadersOf calls =
     concat (map (\<lambda>call. case call of X_setRequestHeader key v \<Rightarrow> [(key, v)] | _ \<Rightarrow> []) calls)"

text \<open>
  A controller is well formed when it is active only with a handle and has its options
  whenever it has a handle. A new controller is, and \<^verbatim>\<open>send\<close> and everything that happens
  afterwards keep it so: no read of a key of \<^verbatim>\<open>xhrOptions_\<close> finds the field null.
\<close>

definition well_formed :: "XhrIo \<Rightarrow> bool" where
  "well_formed x \<longleftrightarrow>
     (active_' x \<longrightarrow> xhr_' x \<noteq> None) \<and> (xhr_' x \<noteq> None \<longrightarrow> xhrOptions_' x \<noteq> None)"

section \<open>Properties\<close>

subsection \<open>Unfolding and closed forms\<close>

lemmas handler_defs = onReadyStateChange_'_def onReadyStateChangeEntryPoint_'_def
  onReadyStateChangeHelper_'_def

lemmas read_defs = getReadyState_def getStatus_def getStatus_try_def getStatusText_def
  getStatusText_try_def isComplete_def isSuccess_def isLastUriEffectiveSchemeHttp_'_def
  xhrOption_def

lemmas cleanup_defs = cleanUpXhr_'_def cleanUpTimeoutTimer_'_def dispatchErrors_'_def
  dispatchEvent_def Timer_clear_def Timer_callOnce_def

lemma notify_inactive:
  "\<not> active_' x \<Longrightarrow> notify env n x = x\<lparr>xhr_' := map_option (xhr_readiness n) (xhr_' x)\<rparr>"
  by (simp add: notify_def handler_defs split: option.splits)

lemma fold_notify_inactive:
  "\<not> active_' x \<Longrightarrow>
   fold (notify env) ns x = x\<lparr>xhr_' := map_option (fold xhr_readiness ns) (xhr_' x)\<rparr>"
proof (induction ns arbitrary: x)
  case Nil
  then show ?case by (simp add: option.map_ident)
next
  case (Cons n ns)
  then show ?case
    by (simp add: notify_inactive option.map_comp comp_def)
qed

lemma xhr_abort_inactive:
  "\<not> active_' x \<Longrightarrow> xhr_' x = Some h \<Longrightarrow>
   xhr_abort env x =
     x\<lparr>xhr_' := Some (fold xhr_readiness (on_abort h) h), xhr_log := xhr_log x @ [X_abort]\<rparr>"
  by (simp add: xhr_abort_def fold_notify_inactive)

lemma ontimeout_fold_readiness [simp]:
  "ontimeout (fold xhr_readiness ns h) = ontimeout h"
  by (induction ns arbitrary: h) (simp_all add: xhr_readiness_def)

lemma abort_active:
  assumes "xhr_' x = Some h" "active_' x"
  shows "abort env c x =
     x\<lparr>active_' := False, inAbort_' := False,
       lastErrorCode_' := (case c of None \<Rightarrow> EC_ABORT | Some c' \<Rightarrow> if c' = EC_NO_ERROR then EC_ABORT else c'),
       dispatched := dispatched x @ [COMPLETE, ABORT, READY],
       xhr_' := None, xhrOptions_' := None,
       timeoutId_' := None,
       timers := (case timeoutId_' x of Some i \<Rightarrow> filter (\<lambda>t. fst t \<noteq> i) (timers x) | None \<Rightarrow> timers x),
       xhr_log := xhr_log x @ [X_abort, X_detach (xhrOption USE_NULL_FUNCTION x)]\<rparr>"
  using assms
  by (simp add: abort_def xhr_abort_inactive cleanup_defs xhrOption_def Let_def split: option.splits)

lemma abort_noop: "xhr_' x = None \<or> \<not> active_' x \<Longrightarrow> abort env c x = x"
  by (auto simp: abort_def)

lemma error_with_handle:
  assumes "xhr_' x = Some h"
  shows "error_' env c e x =
     x\<lparr>active_' := False, inAbort_' := False, lastError_' := e, lastErrorCode_' := c,
       errorDispatched_' := True,
       dispatched := dispatched x @ (if errorDispatched_' x then [] else [COMPLETE, ERROR]) @ [READY],
       xhr_' := None, xhrOptions_' := None,
       timeoutId_' := None,
       timers := (case timeoutId_' x of Some i \<Rightarrow> filter (\<lambda>t. fst t \<noteq> i) (timers x) | None \<Rightarrow> timers x),
       xhr_log := xhr_log x @ [X_abort, X_detach (xhrOption USE_NULL_FUNCTION x)]\<rparr>"
  using assms
  by (simp add: error_'_def xhr_abort_inactive cleanup_defs xhrOption_def Let_def split: option.splits)

lemma error_without_handle:
  assumes "xhr_' x = None"
  shows "error_' env c e x =
     x\<lparr>active_' := False, lastError_' := e, lastErrorCode_' := c,
       errorDispatched_' := True,
       dispatched := dispatched x @ (if errorDispatched_' x then [] else [COMPLETE, ERROR])\<rparr>"
  using assms
  by (simp add: error_'_def cleanup_defs Let_def)

lemma disposeInternal_with_handle:
  assumes "xhr_' x = Some h"
  shows "disposeInternal env x =
     x\<lparr>active_' := False, inAbort_' := (if active_' x then False else inAbort_' x),
       xhr_' := None, xhrOptions_' := None,
       timeoutId_' := None,
       timers := (case timeoutId_' x of Some i \<Rightarrow> filter (\<lambda>t. fst t \<noteq> i) (timers x) | None \<Rightarrow> timers x),
       xhr_log := xhr_log x @ (if active_' x then [X_abort] else []) @ [X_detach (xhrOption USE_NULL_FUNCTION x)]\<rparr>"
  using assms
  by (simp add: disposeInternal_def xhr_abort_inactive cleanup_defs xhrOption_def Let_def split: option.splits)

lemma core_sel [simp]:
  "active_' (core x) = active_' x" "inSend_' (core x) = inSend_' x"
  "inOpen_' (core x) = inOpen_' x" "inAbort_' (core x) = inAbort_' x"
  "errorDispatched_' (core x) = errorDispatched_' x" "xhrOptions_' (core x) = xhrOptions_' x"
  "timeoutId_' (core x) = timeoutId_' x" "useXhr2Timeout_' (core x) = useXhr2Timeout_' x"
  "disposed_' (core x) = disposed_' x" "timeoutInterval_' (core x) = timeoutInterval_' x"
  "xhr_log (core x) = xhr_log x" "lastUri_' (core x) = lastUri_' x"
  "xhr_' (core x) = map_option hcore (xhr_' x)"
  by (simp_all add: core_def)

lemma coreD:
  assumes "core x' = core x"
  shows "active_' x' = active_' x" "inSend_' x' = inSend_' x"
    "inOpen_' x' = inOpen_' x" "inAbort_' x' = inAbort_' x"
    "errorDispatched_' x' = errorDispatched_' x" "xhrOptions_' x' = xhrOptions_' x"
    "timeoutId_' x' = timeoutId_' x" "useXhr2Timeout_' x' = useXhr2Timeout_' x"
    "disposed_' x' = disposed_' x" "timeoutInterval_' x' = timeoutInterval_' x"
    "xhr_log x' = xhr_log x" "lastUri_' x' = lastUri_' x"
    "map_option hcore (xhr_' x') = map_option hcore (xhr_' x)"
proof -
  have *: "\<And>f. f (core x') = f (core x)" using assms by simp
  show "active_' x' = active_' x" using *[of active_'] by simp
  show "inSend_' x' = inSend_' x" using *[of inSend_'] by simp
  show "inOpen_' x' = inOpen_' x" using *[of inOpen_'] by simp
  show "inAbort_' x' = inAbort_' x" using *[of inAbort_'] by simp
  show "errorDispatched_' x' = errorDispatched_' x" using *[of errorDispatched_'] by simp
  show "xhrOptions_' x' = xhrOptions_' x" using *[of xhrOptions_'] by simp
  show "timeoutId_' x' = timeoutId_' x" using *[of timeoutId_'] by simp
  show "useXhr2Timeout_' x' = useXhr2Timeout_' x" using *[of useXhr2Timeout_'] by simp
  show "disposed_' x' = disposed_' x" using *[of disposed_'] by simp
  show "timeoutInterval_' x' = timeoutInterval_' x" using *[of timeoutInterval_'] by simp
  show "xhr_log x' = xhr_log x" using *[of xhr_log] by simp
  show "lastUri_' x' = lastUri_' x" using *[of lastUri_'] by simp
  show "map_option hcore (xhr_' x') = map_option hcore (xhr_' x)" using *[of xhr_'] by simp
qed

lemma quiet_refl: "quiet x x"
  by (auto simp: quiet_def intro: exI[of _ 0])

lemma quiet_trans:
  assumes "quiet x y" "quiet y z" shows "quiet x z"
proof -
  from assms obtain k1 k2 ts1 ts2 where
    d: "dispatched y = dispatched x @ replicate k1 READY_STATE_CHANGE"
       "dispatched z = dispatched y @ replicate k2 READY_STATE_CHANGE"
    and t: "timers y = timers x @ ts1" "timers z = timers y @ ts2"
       "\<forall>t\<in>set ts1. fst (snd t) = CB_onReadyStateChange_'"
       "\<forall>t\<in>set ts2. fst (snd t) = CB_onReadyStateChange_'"
    by (auto simp: quiet_def)
  have "dispatched z = dispatched x @ replicate (k1 + k2) READY_STATE_CHANGE"
    using d by (simp add: replicate_add)
  moreover have "timers z = timers x @ (ts1 @ ts2)" using t by simp
  moreover have "\<forall>t\<in>set (ts1 @ ts2). fst (snd t) = CB_onReadyStateChange_'" using t by auto
  ultimately show ?thesis using assms unfolding quiet_def by (metis le_trans)
qed

lemma hcore_readiness [simp]: "hcore (xhr_readiness n h) = hcore h"
  by (simp add: hcore_def xhr_readiness_def)

lemma notify_quiet:
  assumes "active_' x" "fst n \<noteq> COMPLETE_STATE \<or> inSend_' x"
  shows "quiet x (notify env n x)"
proof (cases "xhr_' x")
  case None
  then show ?thesis by (simp add: notify_def quiet_refl)
next
  case (Some h)
  have rs: "readyState (xhr_readiness n h) = fst n" by (simp add: xhr_readiness_def)
  show ?thesis
    using assms Some rs
    by (auto simp: notify_def handler_defs quiet_def core_def getReadyState_def isComplete_def
        dispatchEvent_def Timer_callOnce_def Let_def
        intro: exI[of _ 0] exI[of _ "Suc 0"])
qed

lemma fold_notify_quiet:
  "active_' x \<Longrightarrow> (\<forall>n\<in>set ns. fst n \<noteq> COMPLETE_STATE) \<or> inSend_' x \<Longrightarrow>
   quiet x (fold (notify env) ns x)"
proof (induction ns arbitrary: x)
  case Nil
  then show ?case by (simp add: quiet_refl)
next
  case (Cons n ns)
  have q: "quiet x (notify env n x)"
    using Cons.prems by (intro notify_quiet) auto
  then have c: "core (notify env n x) = core x" by (simp add: quiet_def)
  have "quiet (notify env n x) (fold (notify env) ns (notify env n x))"
    using Cons.prems coreD(1,2)[OF c] by (intro Cons.IH) auto
  with q show ?case by (auto intro: quiet_trans)
qed

lemma quiet_handle:
  assumes "quiet x x'" "xhr_' x = Some h"
  shows "\<exists>h'. xhr_' x' = Some h' \<and> hcore h' = hcore h"
proof -
  from assms have "map_option hcore (xhr_' x') = Some (hcore h)"
    using coreD(13)[of x' x] by (simp add: quiet_def)
  then show ?thesis by auto
qed

lemma xhr_send_quiet:
  assumes "active_' x" "inSend_' x"
  shows "quiet (x\<lparr>xhr_log := xhr_log x @ [X_send c]\<rparr>) (snd (xhr_send env c h x))"
  using assms by (simp add: xhr_send_def fold_notify_quiet)

lemma xhr_open_quiet:
  assumes "active_' x" "\<forall>n\<in>set (on_open h). fst n \<noteq> COMPLETE_STATE"
  shows "quiet (x\<lparr>xhr_log := xhr_log x @ [X_open m u]\<rparr>) (snd (xhr_open env m u h x))"
  using assms by (simp add: xhr_open_def fold_notify_quiet)

lemma cleanUpTimeoutTimer_with_handle:
  "xhr_' x = Some h \<Longrightarrow>
   cleanUpTimeoutTimer_' x =
     x\<lparr>xhr_' := Some (if useXhr2Timeout_' x then h\<lparr>ontimeout := OT_null\<rparr> else h),
       timeoutId_' := None,
       timers := (case timeoutId_' x of Some i \<Rightarrow> filter (\<lambda>t. fst t \<noteq> i) (timers x)
                  | None \<Rightarrow> timers x)\<rparr>"
  by (simp add: cleanup_defs Let_def split: option.splits)

lemma paired_hd: "paired (e # es) \<Longrightarrow> e \<noteq> ERROR"
  by (cases es) simp_all

lemma paired_Cons: "e \<noteq> ERROR \<Longrightarrow> paired es \<Longrightarrow> paired (e # es)"
  by (cases es) (auto dest: paired_hd)

lemma paired_append: "paired a \<Longrightarrow> paired b \<Longrightarrow> paired (a @ b)"
proof (induction a rule: paired.induct)
  case 1
  then show ?case by simp
next
  case (2 e)
  then show ?case by (simp add: paired_Cons)
next
  case (3 e e' es)
  show ?case
  proof (cases "e' = ERROR")
    case True
    then show ?thesis using 3 by simp
  next
    case False
    then have "paired ((e' # es) @ b)" using 3 by simp
    then show ?thesis using 3(3) False by simp
  qed
qed

subsection \<open>One error dispatch per request cycle\<close>

lemma error_guard_refl: "error_guard x x"
  by (simp add: error_guard_def)

lemma error_guard_trans:
  assumes "error_guard x y" "error_guard y z"
  shows "error_guard x z"
proof -
  from assms(1) obtain n1 where n1: "dispatched y = dispatched x @ n1" "paired n1"
    "count_list n1 ERROR \<le> (if errorDispatched_' x then 0 else 1)"
    "errorDispatched_' x \<or> ERROR \<in> set n1 \<longrightarrow> errorDispatched_' y"
    by (auto simp: error_guard_def)
  from assms(2) obtain n2 where n2: "dispatched z = dispatched y @ n2" "paired n2"
    "count_list n2 ERROR \<le> (if errorDispatched_' y then 0 else 1)"
    "errorDispatched_' y \<or> ERROR \<in> set n2 \<longrightarrow> errorDispatched_' z"
    by (auto simp: error_guard_def)
  have c: "count_list (n1 @ n2) ERROR \<le> (if errorDispatched_' x then 0 else 1)"
  proof (cases "ERROR \<in> set n1 \<or> errorDispatched_' x")
    case True
    then have "errorDispatched_' y" using n1(4) by auto
    then have "count_list n2 ERROR = 0" using n2(3) by simp
    then show ?thesis using n1(3) by simp
  next
    case False
    then have "count_list n1 ERROR = 0" by (simp add: count_list_0_iff)
    then show ?thesis using n2(3) False by (auto split: if_splits)
  qed
  have f: "errorDispatched_' x \<or> ERROR \<in> set (n1 @ n2) \<longrightarrow> errorDispatched_' z"
    using n1(4) n2(4) by auto
  show ?thesis unfolding error_guard_def
    using n1(1) n2(1) paired_append[OF n1(2) n2(2)] c f
    by (intro exI[of _ "n1 @ n2"]) simp
qed

lemma error_guard_same:
  "dispatched y = dispatched x \<Longrightarrow> (errorDispatched_' x \<longrightarrow> errorDispatched_' y) \<Longrightarrow> error_guard x y"
  by (simp add: error_guard_def)

lemma error_guard_left:
  "dispatched y = dispatched x \<Longrightarrow> errorDispatched_' y = errorDispatched_' x \<Longrightarrow>
   error_guard y z \<Longrightarrow> error_guard x z"
  by (simp add: error_guard_def)

lemma handler_error_guard: "error_guard x (onReadyStateChange_' env x)"
  by (cases "xhr_' x")
    (auto simp: error_guard_def handler_defs cleanup_defs Let_def split: option.splits)

lemma notify_error_guard: "error_guard x (notify env n x)"
proof (cases "xhr_' x")
  case None
  then show ?thesis by (simp add: notify_def error_guard_refl)
next
  case (Some h)
  have "error_guard (x\<lparr>xhr_' := Some (xhr_readiness n h)\<rparr>)
      (onReadyStateChange_' env (x\<lparr>xhr_' := Some (xhr_readiness n h)\<rparr>))"
    by (rule handler_error_guard)
  then show ?thesis using Some by (simp add: notify_def error_guard_def)
qed

lemma fold_notify_error_guard: "error_guard x (fold (notify env) ns x)"
proof (induction ns arbitrary: x)
  case Nil
  then show ?case by (simp add: error_guard_refl)
next
  case (Cons n ns)
  show ?case using notify_error_guard[of x env n] Cons[of "notify env n x"]
    by (auto intro: error_guard_trans)
qed

lemma abort_error_guard: "error_guard x (abort env c x)"
proof (cases "xhr_' x \<noteq> None \<and> active_' x")
  case True
  then obtain h where "xhr_' x = Some h" "active_' x" by auto
  from abort_active[OF this, of env c] show ?thesis by (simp add: error_guard_def)
next
  case False
  then show ?thesis using abort_noop[of x env c] by (auto simp: error_guard_refl)
qed

lemma error_error_guard: "error_guard x (error_' env c e x)"
proof (cases "xhr_' x")
  case None
  from error_without_handle[OF this, of env c e] show ?thesis by (simp add: error_guard_def)
next
  case (Some h)
  from error_with_handle[OF this, of env c e] show ?thesis by (simp add: error_guard_def)
qed

lemma timeout_error_guard: "error_guard x (timeout_' env x)"
proof (cases "goog_undefined env \<or> xhr_' x = None")
  case True
  then show ?thesis by (auto simp: timeout_'_def error_guard_refl)
next
  case False
  let ?y = "dispatchEvent TIMEOUT (x\<lparr>lastError_' :=
                     ''Timed out after '' @ String_of (timeoutInterval_' x) @ ''ms, aborting'',
                   lastErrorCode_' := EC_TIMEOUT\<rparr>)"
  have 1: "error_guard x ?y" by (simp add: error_guard_def dispatchEvent_def)
  have 2: "error_guard ?y (abort env (Some EC_TIMEOUT) ?y)" by (rule abort_error_guard)
  from error_guard_trans[OF 1 2] False show ?thesis by (simp add: timeout_'_def Let_def)
qed

lemma dispose_error_guard: "error_guard x (dispose env x)"
proof (cases "xhr_' x")
  case None
  then show ?thesis by (simp add: dispose_def disposeInternal_def error_guard_def)
next
  case (Some h)
  then have "xhr_' (x\<lparr>disposed_' := True\<rparr>) = Some h" by simp
  from disposeInternal_with_handle[OF this, of env] show ?thesis
    by (simp add: dispose_def error_guard_def)
qed

lemma step_error_guard: "error_guard x (step env st x)"
proof (cases st)
  case (Notification n)
  then show ?thesis by (simp add: notify_error_guard)
next
  case (TimerFires i)
  show ?thesis
  proof (cases "find (\<lambda>t. fst t = i) (timers x)")
    case None
    then show ?thesis using TimerFires by (simp add: timer_fires_def error_guard_refl)
  next
    case (Some t)
    let ?y = "x\<lparr>timers := filter (\<lambda>t. fst t \<noteq> i) (timers x)\<rparr>"
    have "error_guard ?y (timeout_' env ?y)" "error_guard ?y (onReadyStateChange_' env ?y)"
      by (rule timeout_error_guard, rule handler_error_guard)
    then have "error_guard x (timeout_' env ?y)" "error_guard x (onReadyStateChange_' env ?y)"
      by (auto intro: error_guard_left[of ?y x])
    then show ?thesis using Some TimerFires
      by (cases "fst (snd t)") (simp_all add: timer_fires_def Let_def)
  qed
next
  case NativeTimeout
  then show ?thesis using timeout_error_guard[of x env]
    by (auto simp: native_timeout_def error_guard_refl split: option.splits)
next
  case (CallAbort c)
  then show ?thesis by (simp add: abort_error_guard)
next
  case CallDispose
  then show ?thesis by (simp add: dispose_error_guard)
next
  case (CallSetTimeoutInterval ms)
  then show ?thesis by (simp add: setTimeoutInterval_def error_guard_def)
qed

lemma run_error_guard: "error_guard x (run env sts x)"
proof (induction sts arbitrary: x)
  case Nil
  then show ?case by (simp add: run_def error_guard_refl)
next
  case (Cons st sts)
  show ?case using step_error_guard[of x env st] Cons[of "step env st x"]
    by (auto simp: run_def intro: error_guard_trans)
qed

lemma send_try_error_guard:
  assumes h: "xhr_' x = Some h"
  shows "error_guard x (send_try env c x)"
proof -
  let ?x1 = "cleanUpTimeoutTimer_' x"
  define h1 where "h1 = (if useXhr2Timeout_' x then h\<lparr>ontimeout := OT_null\<rparr> else h)"
  have h1: "xhr_' ?x1 = Some h1"
    using h by (simp add: cleanUpTimeoutTimer_with_handle h1_def)
  let ?x2 = "(if timeoutInterval_' ?x1 > 0 then
                         let x1a = ?x1\<lparr>useXhr2Timeout_' := shouldUseXhr2Timeout_' env h1\<rparr>
                         in if useXhr2Timeout_' x1a then
                              x1a\<lparr>xhr_' := Some (h1\<lparr>timeout := Some (timeoutInterval_' x1a),
                                                    ontimeout := OT_timeout_'\<rparr>)\<rparr>
                            else
                              (Timer_callOnce CB_timeout_' (timeoutInterval_' x1a) x1a)
                                \<lparr>timeoutId_' := Some (timer_seq x1a)\<rparr>
                       else ?x1)"
  let ?y = "?x2\<lparr>inSend_' := True, xhr_log := xhr_log ?x2 @ [X_send c]\<rparr>"
  let ?z = "fold (notify env) (on_send h1) ?y"
  have y: "errorDispatched_' ?y = errorDispatched_' x" "dispatched ?y = dispatched x"
    using h by (simp_all add: cleanUpTimeoutTimer_with_handle Timer_callOnce_def Let_def)
  have yz: "error_guard ?y ?z" by (rule fold_notify_error_guard)
  have xz: "error_guard x ?z" by (rule error_guard_left[OF y(2) y(1) yz])
  have st: "send_try env c x =
      (case send_throws h1 of None \<Rightarrow> ?z\<lparr>inSend_' := False\<rparr>
       | Some err \<Rightarrow> error_' env EC_EXCEPTION err ?z)"
    using h1 by (simp add: send_try_def xhr_send_def Let_def)
  show ?thesis
  proof (cases "send_throws h1")
    case None
    have "error_guard ?z (?z\<lparr>inSend_' := False\<rparr>)" by (simp add: error_guard_same)
    with xz show ?thesis unfolding st None by (auto intro: error_guard_trans)
  next
    case (Some err)
    have "error_guard ?z (error_' env EC_EXCEPTION err ?z)" by (rule error_error_guard)
    with xz show ?thesis unfolding st Some by (auto intro: error_guard_trans)
  qed
qed

lemma send_error_guard:
  assumes "xhr_' x = None"
  shows "error_guard (x\<lparr>errorDispatched_' := False\<rparr>) (snd (send env created options url m c hs x))"
proof -
  let ?meth = "(case m of None \<Rightarrow> ''GET'' | Some m \<Rightarrow> if m = [] then ''GET'' else toUpperCase m)"
  let ?x1 = "x\<lparr>lastUri_' := url, lastError_' := [], lastErrorCode_' := EC_NO_ERROR,
                   lastMethod_' := ?meth, errorDispatched_' := False, active_' := True,
                   xhr_' := Some created, xhrOptions_' := Some options, inOpen_' := True\<rparr>"
  let ?x2 = "snd (xhr_open env ?meth url created ?x1)"
  have x12: "error_guard (?x1\<lparr>xhr_log := xhr_log ?x1 @ [X_open ?meth url]\<rparr>) ?x2"
    by (simp add: xhr_open_def fold_notify_error_guard)
  have x2: "error_guard (x\<lparr>errorDispatched_' := False\<rparr>) ?x2"
    by (rule error_guard_left[OF _ _ x12]) simp_all
  have thr: "fst (xhr_open env ?meth url created ?x1) = open_throws created"
    by (simp add: xhr_open_def)
  show ?thesis
  proof (cases "open_throws created")
    case (Some err)
    then have s: "snd (send env created options url m c hs x) = error_' env EC_EXCEPTION err ?x2"
      using assms thr by (simp add: send_def Let_def split_beta)
    have "error_guard ?x2 (error_' env EC_EXCEPTION err ?x2)" by (rule error_error_guard)
    with x2 show ?thesis unfolding s by (auto intro: error_guard_trans)
  next
    case None
    let ?x3 = "?x2\<lparr>inOpen_' := False\<rparr>"
    have x3: "error_guard (x\<lparr>errorDispatched_' := False\<rparr>) ?x3"
      using x2 by (simp add: error_guard_def)
    show ?thesis
    proof (cases "xhr_' ?x2")
      case N: None
      then have "snd (send env created options url m c hs x) = ?x3"
        using assms None thr by (simp add: send_def Let_def split_beta)
      then show ?thesis using x3 by simp
    next
      case (Some h2)
      let ?c = "(case c of None \<Rightarrow> StringContent [] | Some c' \<Rightarrow> c')"
      let ?hdrs = "send_headers env ?x3 ?meth ?c hs"
      let ?h1 = "h2\<lparr>responseType :=
                                    (if truthy_ResponseType (responseType_' ?x3)
                                     then Some (responseType_' ?x3) else responseType h2),
                                  withCredentials :=
                                    (case withCredentials h2 of
                                       Some b \<Rightarrow> Some (withCredentials_' ?x3)
                                     | None \<Rightarrow> None)\<rparr>"
      let ?x4 = "?x3\<lparr>xhr_' := Some ?h1,
                                  xhr_log := xhr_log ?x3 @
                                    map (\<lambda>(key, v). X_setRequestHeader key v) ?hdrs\<rparr>"
      have s: "snd (send env created options url m c hs x) = send_try env ?c ?x4"
        using assms None Some thr by (simp add: send_def Let_def split_beta)
      have "xhr_' ?x4 = Some ?h1" by simp
      from send_try_error_guard[OF this, of env ?c]
      have x4: "error_guard ?x4 (send_try env ?c ?x4)" .
      have "error_guard ?x3 (send_try env ?c ?x4)"
        by (rule error_guard_left[OF _ _ x4]) simp_all
      with x3 show ?thesis unfolding s by (auto intro: error_guard_trans)
    qed
  qed
qed

text \<open>
  Claim C2. In a request cycle, a call of \<^verbatim>\<open>send\<close> on a controller without a handle
  followed by anything that can happen before the next \<^verbatim>\<open>send\<close>, \<^verbatim>\<open>ERROR\<close> is dispatched
  at most once and directly after a \<^verbatim>\<open>COMPLETE\<close>, whatever the transport does and however
  many failures meet: an exception of \<^verbatim>\<open>open\<close> or \<^verbatim>\<open>send\<close>, an HTTP error at terminal
  readiness, a timeout. Once \<^verbatim>\<open>errorDispatched_\<close> is set, nothing but the next \<^verbatim>\<open>send\<close>
  clears it, and until then no \<^verbatim>\<open>ERROR\<close> is dispatched.
\<close>

theorem error_dispatched_once:
  "(xhr_' x = None \<longrightarrow>
      (\<exists>new. dispatched (run env sts (snd (send env created options url m c hs x))) =
                dispatched x @ new \<and>
             paired new \<and> count_list new ERROR \<le> 1)) \<and>
   (errorDispatched_' x \<longrightarrow>
      (\<exists>new. dispatched (run env sts x) = dispatched x @ new \<and> ERROR \<notin> set new) \<and>
      errorDispatched_' (run env sts x))"
proof (intro conjI impI)
  assume a: "xhr_' x = None"
  let ?x' = "snd (send env created options url m c hs x)"
  from error_guard_trans[OF send_error_guard[OF a] run_error_guard]
  have "error_guard (x\<lparr>errorDispatched_' := False\<rparr>) (run env sts ?x')" .
  then show "\<exists>new. dispatched (run env sts ?x') = dispatched x @ new \<and>
             paired new \<and> count_list new ERROR \<le> 1"
    by (auto simp: error_guard_def)
next
  assume a: "errorDispatched_' x"
  from run_error_guard[of x env sts] a
  show "\<exists>new. dispatched (run env sts x) = dispatched x @ new \<and> ERROR \<notin> set new"
    by (auto simp: error_guard_def count_list_0_iff)
next
  assume a: "errorDispatched_' x"
  from run_error_guard[of x env sts] a
  show "errorDispatched_' (run env sts x)"
    by (auto simp: error_guard_def)
qed

text \<open>
  The exception of the transport's \<^verbatim>\<open>send\<close> dispatches the error; the rescheduled
  notification and a late one with status 404 dispatch nothing more.
\<close>

theorem error_dispatched_once_witness:
  "count_list (dispatched (run example_platform [TimerFires 0, Notification (4, Val 404)]
        (snd (send example_platform example_failing_xhr example_options ''http://x/y''
           None None None new_XhrIo)))) ERROR \<le> 1 \<and>
   errorDispatched_' (run example_platform [TimerFires 0, Notification (4, Val 404)]
        (snd (send example_platform example_failing_xhr example_options ''http://x/y''
           None None None new_XhrIo)))"
proof -
  let ?x = "snd (send example_platform example_failing_xhr example_options ''http://x/y''
           None None None new_XhrIo)"
  have h1: "xhr_' new_XhrIo = None" by (simp add: new_XhrIo_def)
  have h2: "errorDispatched_' ?x" by code_simp
  from error_dispatched_once[of new_XhrIo example_platform "[TimerFires 0, Notification (4, Val 404)]"
      example_failing_xhr example_options "''http://x/y''" None None None] h1
  have 1: "count_list (dispatched (run example_platform [TimerFires 0, Notification (4, Val 404)] ?x)) ERROR \<le> 1"
    by (auto simp: new_XhrIo_def)
  from error_dispatched_once[of ?x example_platform "[TimerFires 0, Notification (4, Val 404)]"] h2
  have 2: "errorDispatched_' (run example_platform [TimerFires 0, Notification (4, Val 404)] ?x)"
    by blast
  from 1 2 show ?thesis by simp
qed

subsection \<open>send on a controller that owns a handle\<close>

text \<open>
  Claim C6. On a controller that owns a transport handle, \<^verbatim>\<open>send\<close> throws the error
  that names both URIs and leaves the controller exactly as it was.
\<close>

theorem send_while_active_rejects:
  assumes "xhr_' x = Some h"
  shows "send env created options url m c hs x =
           (Some (Error (''[goog.net.XhrIo] Object is active with another request='' @
                         lastUri_' x @ ''; newUri='' @ url)), x)"
  using assms by (simp add: send_def)

theorem send_while_active_rejects_witness:
  "send example_platform example_xhr example_options ''http://x/z'' None None None
     example_in_flight =
   (Some (Error ''[goog.net.XhrIo] Object is active with another request=http://x/y; newUri=http://x/z''),
    example_in_flight)"
proof -
  have "xhr_' example_in_flight \<noteq> None" by code_simp
  then obtain h where h: "xhr_' example_in_flight = Some h" by auto
  have u: "lastUri_' example_in_flight = ''http://x/y''" by code_simp
  from send_while_active_rejects[OF h, of example_platform example_xhr example_options
      "''http://x/z''" None None None] u
  show ?thesis by simp
qed

subsection \<open>Disposal\<close>

text \<open>
  Claim C4. Disposing of a controller with an active request aborts the transport
  handle, cancels the timeout, detaches and releases the handle, and dispatches no event:
  the events dispatched are those dispatched before. This holds for the teardown
  \<^verbatim>\<open>disposeInternal\<close> and for \<^verbatim>\<open>dispose\<close> on a controller not yet disposed.
\<close>

theorem dispose_active_is_silent:
  assumes "xhr_' x = Some h" and "active_' x"
  shows "dispatched (disposeInternal env x) = dispatched x \<and>
         xhr_' (disposeInternal env x) = None \<and> \<not> active_' (disposeInternal env x) \<and>
         timeoutId_' (disposeInternal env x) = None \<and>
         xhr_log (disposeInternal env x) =
           xhr_log x @ [X_abort, X_detach (xhrOption USE_NULL_FUNCTION x)] \<and>
         (\<not> disposed_' x \<longrightarrow>
            dispatched (dispose env x) = dispatched x \<and> xhr_' (dispose env x) = None \<and>
            \<not> active_' (dispose env x) \<and> disposed_' (dispose env x) \<and>
            xhr_log (dispose env x) =
              xhr_log x @ [X_abort, X_detach (xhrOption USE_NULL_FUNCTION x)])"
proof -
  have "xhr_' (x\<lparr>disposed_' := True\<rparr>) = Some h" using assms by simp
  from disposeInternal_with_handle[OF this, of env] disposeInternal_with_handle[OF assms(1), of env]
    assms(2)
  show ?thesis by (simp add: dispose_def xhrOption_def)
qed

theorem dispose_active_is_silent_witness:
  "dispatched (dispose example_platform example_in_flight) = [] \<and>
   xhr_' (dispose example_platform example_in_flight) = None \<and>
   xhr_log (dispose example_platform example_in_flight) =
     xhr_log example_in_flight @ [X_abort, X_detach False]"
proof -
  have "xhr_' example_in_flight \<noteq> None" by code_simp
  then obtain h where h: "xhr_' example_in_flight = Some h" by auto
  have a: "active_' example_in_flight" by code_simp
  have d: "\<not> disposed_' example_in_flight" by code_simp
  have e: "dispatched example_in_flight = []" by code_simp
  have o: "xhrOption USE_NULL_FUNCTION example_in_flight = False" by code_simp
  from dispose_active_is_silent[OF h a, of example_platform] d e o
  show ?thesis by simp
qed

subsection \<open>Arming the timeout\<close>

lemma hcore_fields:
  "hcore h' = hcore h \<Longrightarrow> ontimeout h' = ontimeout h \<and> timeout h' = timeout h \<and>
     on_send h' = on_send h \<and> send_throws h' = send_throws h"
proof -
  assume a: "hcore h' = hcore h"
  have *: "\<And>f. f (hcore h') = f (hcore h)" using a by simp
  show ?thesis using *[of ontimeout] *[of timeout] *[of on_send] *[of send_throws]
    by (simp add: hcore_def)
qed

lemma notify_open_inv: "open_inv x0 x \<Longrightarrow> open_inv x0 (notify env n x)"
proof (cases "xhr_' x")
  case None
  then show "open_inv x0 x \<Longrightarrow> ?thesis" by (simp add: notify_def)
next
  case (Some h)
  assume a: "open_inv x0 x"
  have rs: "hcore (xhr_readiness n h) = hcore h" by simp
  show ?thesis using a Some rs
    by (auto simp: open_inv_def notify_def handler_defs cleanup_defs Let_def
        split: option.splits)
qed

lemma fold_notify_open_inv: "open_inv x0 x \<Longrightarrow> open_inv x0 (fold (notify env) ns x)"
  by (induction ns arbitrary: x) (simp_all add: notify_open_inv)

lemma quiet_armed:
  assumes "quiet x x'"
  shows "native_armed x' = native_armed x" "fallback_armed x' = fallback_armed x"
    "timeoutId_' x' = timeoutId_' x" "(xhr_' x' = None) = (xhr_' x = None)"
proof -
  from assms have c: "core x' = core x" by (simp add: quiet_def)
  from coreD(13)[OF c] have m: "map_option hcore (xhr_' x') = map_option hcore (xhr_' x)" .
  show "(xhr_' x' = None) = (xhr_' x = None)" using m by (cases "xhr_' x'"; cases "xhr_' x") auto
  show "native_armed x' = native_armed x"
    using m by (cases "xhr_' x'"; cases "xhr_' x") (auto simp: native_armed_def dest: hcore_fields)
  show t: "timeoutId_' x' = timeoutId_' x" using coreD(7)[OF c] .
  from assms obtain ts where ts: "timers x' = timers x @ ts"
    "\<forall>t\<in>set ts. fst (snd t) = CB_onReadyStateChange_'"
    by (auto simp: quiet_def)
  show "fallback_armed x' = fallback_armed x"
    using t ts by (auto simp: fallback_armed_def split: option.splits)
qed

lemma armed_inSend:
  "native_armed (x\<lparr>inSend_' := b\<rparr>) = native_armed x"
  "fallback_armed (x\<lparr>inSend_' := b\<rparr>) = fallback_armed x"
  by (simp_all add: native_armed_def fallback_armed_def split: option.splits)

lemma send_try_armed:
  assumes h: "xhr_' x = Some h" and a: "active_' x" and o: "ontimeout h \<noteq> OT_timeout_'"
  shows "(xhr_' (send_try env c x) = None \<and> timeoutId_' (send_try env c x) = None) \<or>
         (xhr_' (send_try env c x) \<noteq> None \<and>
          (if 0 < timeoutInterval_' x then
             native_armed (send_try env c x) =
               shouldUseXhr2Timeout_' env (if useXhr2Timeout_' x then h\<lparr>ontimeout := OT_null\<rparr> else h) \<and>
             fallback_armed (send_try env c x) = (\<not> native_armed (send_try env c x))
           else \<not> native_armed (send_try env c x) \<and> timeoutId_' (send_try env c x) = None))"
proof -
  let ?x1 = "cleanUpTimeoutTimer_' x"
  define h1 where "h1 = (if useXhr2Timeout_' x then h\<lparr>ontimeout := OT_null\<rparr> else h)"
  have h1: "xhr_' ?x1 = Some h1"
    using h by (simp add: cleanUpTimeoutTimer_with_handle h1_def)
  have o1: "ontimeout h1 \<noteq> OT_timeout_'" using o by (simp add: h1_def)
  let ?x2 = "(if timeoutInterval_' ?x1 > 0 then
                         let x1a = ?x1\<lparr>useXhr2Timeout_' := shouldUseXhr2Timeout_' env h1\<rparr>
                         in if useXhr2Timeout_' x1a then
                              x1a\<lparr>xhr_' := Some (h1\<lparr>timeout := Some (timeoutInterval_' x1a),
                                                    ontimeout := OT_timeout_'\<rparr>)\<rparr>
                            else
                              (Timer_callOnce CB_timeout_' (timeoutInterval_' x1a) x1a)
                                \<lparr>timeoutId_' := Some (timer_seq x1a)\<rparr>
                       else ?x1)"
  let ?y = "?x2\<lparr>inSend_' := True\<rparr>"
  let ?y' = "?y\<lparr>xhr_log := xhr_log ?y @ [X_send c]\<rparr>"
  let ?z = "snd (xhr_send env c h1 ?y)"
  have y: "active_' ?y" "inSend_' ?y" "xhr_' ?y' \<noteq> None"
    using h a by (simp_all add: cleanUpTimeoutTimer_with_handle Timer_callOnce_def Let_def)
  have ya: "if 0 < timeoutInterval_' x then
             native_armed ?y' = shouldUseXhr2Timeout_' env h1 \<and>
             fallback_armed ?y' = (\<not> native_armed ?y')
           else \<not> native_armed ?y' \<and> timeoutId_' ?y' = None"
    using h o
    by (simp add: cleanUpTimeoutTimer_with_handle Timer_callOnce_def Let_def native_armed_def
        fallback_armed_def h1_def)
  have q: "quiet ?y' ?z" using y by (intro xhr_send_quiet) auto
  note qa = quiet_armed[OF q]
  from y(3) qa(4) obtain hz where hz: "xhr_' ?z = Some hz" by auto
  have st: "send_try env c x =
      (case fst (xhr_send env c h1 ?y) of None \<Rightarrow> ?z\<lparr>inSend_' := False\<rparr>
       | Some err \<Rightarrow> error_' env EC_EXCEPTION err ?z)"
    using h1 by (simp add: send_try_def Let_def split_beta)
  show ?thesis
  proof (cases "fst (xhr_send env c h1 ?y)")
    case None
    have "native_armed (?z\<lparr>inSend_' := False\<rparr>) = native_armed ?z"
      "fallback_armed (?z\<lparr>inSend_' := False\<rparr>) = fallback_armed ?z"
      by (rule armed_inSend)+
    then show ?thesis using st None hz ya qa unfolding h1_def[symmetric]
      by (auto split: if_splits)
  next
    case (Some err)
    then show ?thesis using st error_with_handle[OF hz, of env EC_EXCEPTION err] by simp
  qed
qed

lemma send_cases:
  assumes n: "xhr_' x = None"
  shows "(\<exists>x2. snd (send env created options url m c hs x) = x2 \<and> xhr_' x2 = None \<and>
            timeoutId_' x2 = None) \<or>
         (\<exists>x4 h4 c'. send env created options url m c hs x = (None, send_try env c' x4) \<and>
            xhr_' x4 = Some h4 \<and> active_' x4 \<and> ontimeout h4 = ontimeout created \<and>
            timeout h4 = timeout created \<and> useXhr2Timeout_' x4 = useXhr2Timeout_' x \<and>
            timeoutInterval_' x4 = timeoutInterval_' x)"
proof -
  let ?meth = "(case m of None \<Rightarrow> ''GET'' | Some m \<Rightarrow> if m = [] then ''GET'' else toUpperCase m)"
  let ?x1 = "x\<lparr>lastUri_' := url, lastError_' := [], lastErrorCode_' := EC_NO_ERROR,
                   lastMethod_' := ?meth, errorDispatched_' := False, active_' := True,
                   xhr_' := Some created, xhrOptions_' := Some options, inOpen_' := True\<rparr>"
  let ?x2 = "snd (xhr_open env ?meth url created ?x1)"
  have "open_inv ?x1 (?x1\<lparr>xhr_log := xhr_log ?x1 @ [X_open ?meth url]\<rparr>)"
    by (simp add: open_inv_def)
  then have inv: "open_inv ?x1 ?x2"
    by (simp add: xhr_open_def fold_notify_open_inv)
  have thr: "fst (xhr_open env ?meth url created ?x1) = open_throws created"
    by (simp add: xhr_open_def)
  show ?thesis
  proof (cases "xhr_' ?x2")
    case None
    then have t: "timeoutId_' ?x2 = None" using inv by (simp add: open_inv_def)
    show ?thesis
    proof (cases "open_throws created")
      case N: None
      then have "snd (send env created options url m c hs x) = ?x2\<lparr>inOpen_' := False\<rparr>"
        using n thr None by (simp add: send_def Let_def split_beta)
      then show ?thesis using None t by simp
    next
      case (Some err)
      then have "snd (send env created options url m c hs x) = error_' env EC_EXCEPTION err ?x2"
        using n thr by (simp add: send_def Let_def split_beta)
      then show ?thesis using error_without_handle[OF None, of env EC_EXCEPTION err] None t
        by simp
    qed
  next
    case (Some h2)
    then have i2: "active_' ?x2" "hcore created = hcore h2"
      "useXhr2Timeout_' ?x2 = useXhr2Timeout_' x" "timeoutInterval_' ?x2 = timeoutInterval_' x"
      using inv by (simp_all add: open_inv_def)
    show ?thesis
    proof (cases "open_throws created")
      case (Some err)
      then have "snd (send env created options url m c hs x) = error_' env EC_EXCEPTION err ?x2"
        using n thr by (simp add: send_def Let_def split_beta)
      then show ?thesis using error_with_handle[OF \<open>xhr_' ?x2 = Some h2\<close>, of env EC_EXCEPTION err]
        by simp
    next
      case None
      let ?x3 = "?x2\<lparr>inOpen_' := False\<rparr>"
      let ?c = "(case c of None \<Rightarrow> StringContent [] | Some c' \<Rightarrow> c')"
      let ?hdrs = "send_headers env ?x3 ?meth ?c hs"
      let ?h1 = "h2\<lparr>responseType :=
                                    (if truthy_ResponseType (responseType_' ?x3)
                                     then Some (responseType_' ?x3) else responseType h2),
                                  withCredentials :=
                                    (case withCredentials h2 of
                                       Some b \<Rightarrow> Some (withCredentials_' ?x3)
                                     | None \<Rightarrow> None)\<rparr>"
      let ?x4 = "?x3\<lparr>xhr_' := Some ?h1,
                                  xhr_log := xhr_log ?x3 @
                                    map (\<lambda>(key, v). X_setRequestHeader key v) ?hdrs\<rparr>"
      have s: "send env created options url m c hs x = (None, send_try env ?c ?x4)"
        using n thr None \<open>xhr_' ?x2 = Some h2\<close> by (simp add: send_def Let_def split_beta)
      have "xhr_' ?x4 = Some ?h1" "active_' ?x4" "ontimeout ?h1 = ontimeout created"
        "timeout ?h1 = timeout created" "useXhr2Timeout_' ?x4 = useXhr2Timeout_' x"
        "timeoutInterval_' ?x4 = timeoutInterval_' x"
        using i2 hcore_fields[OF i2(2)] by simp_all
      with s show ?thesis by blast
    qed
  qed
qed




text \<open>
  The flag left by the request before. On Internet Explorer 9 a handle without
  \<^verbatim>\<open>ontimeout\<close> gets the timer on a new controller, and the native mechanism on a
  controller whose request before used the native mechanism.
\<close>

lemma native_after_native_cycle:
  "ontimeout (example_xhr\<lparr>ontimeout := OT_undefined\<rparr>) = OT_undefined \<and>
   native_armed
     (snd (send example_IE9 (example_xhr\<lparr>ontimeout := OT_undefined\<rparr>) example_options
        ''http://x/z'' None None None
        (run example_IE9 [CallAbort None]
           (snd (send example_IE9 example_xhr example_options ''http://x/y'' None None None
              (setTimeoutInterval 5 new_XhrIo)))))) \<and>
   \<not> native_armed
     (snd (send example_IE9 (example_xhr\<lparr>ontimeout := OT_undefined\<rparr>) example_options
        ''http://x/z'' None None None (setTimeoutInterval 5 new_XhrIo)))"
  by code_simp

subsection \<open>The timeout interval\<close>

text \<open>
  Claim C10. \<^verbatim>\<open>setTimeoutInterval\<close> stores the larger of 0 and its argument, so
  \<^verbatim>\<open>getTimeoutInterval\<close> is not negative afterwards, and a \<^verbatim>\<open>send\<close> after a negative
  setting arms neither timeout mechanism.
\<close>

theorem setTimeoutInterval_clamps:
  "getTimeoutInterval (setTimeoutInterval ms x) = max 0 ms \<and>
   0 \<le> getTimeoutInterval (setTimeoutInterval ms x) \<and>
   (ms < 0 \<and> xhr_' x = None \<and> ontimeout created \<noteq> OT_timeout_' \<longrightarrow>
      getTimeoutInterval (setTimeoutInterval ms x) = 0 \<and>
      \<not> native_armed (snd (send env created options url m c hs (setTimeoutInterval ms x))) \<and>
      \<not> fallback_armed (snd (send env created options url m c hs (setTimeoutInterval ms x))))"
proof (intro conjI impI)
  show "getTimeoutInterval (setTimeoutInterval ms x) = max 0 ms"
    by (simp add: getTimeoutInterval_def setTimeoutInterval_def)
  show "0 \<le> getTimeoutInterval (setTimeoutInterval ms x)"
    by (simp add: getTimeoutInterval_def setTimeoutInterval_def)
next
  assume a: "ms < 0 \<and> xhr_' x = None \<and> ontimeout created \<noteq> OT_timeout_'"
  then show "getTimeoutInterval (setTimeoutInterval ms x) = 0"
    by (simp add: getTimeoutInterval_def setTimeoutInterval_def)
next
  assume a: "ms < 0 \<and> xhr_' x = None \<and> ontimeout created \<noteq> OT_timeout_'"
  let ?x = "setTimeoutInterval ms x"
  let ?x' = "snd (send env created options url m c hs ?x)"
  have n: "xhr_' ?x = None" and t: "\<not> 0 < timeoutInterval_' ?x"
    using a by (simp_all add: setTimeoutInterval_def)
  have "\<not> native_armed ?x' \<and> timeoutId_' ?x' = None"
  proof -
    from send_cases[OF n, of env created options url m c hs]
    consider (ended) "xhr_' ?x' = None" "timeoutId_' ?x' = None"
      | (tried) x4 h4 c' where "?x' = send_try env c' x4" "xhr_' x4 = Some h4" "active_' x4"
          "ontimeout h4 = ontimeout created" "timeoutInterval_' x4 = timeoutInterval_' ?x"
      by auto
    then show ?thesis
    proof cases
      case ended
      then show ?thesis by (simp add: native_armed_def)
    next
      case tried
      have o: "ontimeout h4 \<noteq> OT_timeout_'" using tried(4) a by simp
      from send_try_armed[OF tried(2,3) o, of env c'] tried(1,5) t
      show ?thesis by (auto simp: native_armed_def)
    qed
  qed
  then show "\<not> native_armed ?x'" "\<not> fallback_armed ?x'"
    by (simp_all add: fallback_armed_def)
qed

theorem setTimeoutInterval_clamps_witness:
  "getTimeoutInterval (setTimeoutInterval (- 5) new_XhrIo) = 0 \<and>
   \<not> native_armed (snd (send example_IE9 example_xhr example_options ''http://x/y'' None None
      None (setTimeoutInterval (- 5) new_XhrIo))) \<and>
   \<not> fallback_armed (snd (send example_IE9 example_xhr example_options ''http://x/y'' None
      None None (setTimeoutInterval (- 5) new_XhrIo)))"
proof -
  have h: "(- 5 :: int) < 0 \<and> xhr_' new_XhrIo = None \<and> ontimeout example_xhr \<noteq> OT_timeout_'"
    by code_simp
  from setTimeoutInterval_clamps[of "- 5" new_XhrIo example_xhr example_IE9 example_options
      "''http://x/y''" None None None] h
  show ?thesis by blast
qed

subsection \<open>The content-type default\<close>

lemma requestHeadersOf_simps [simp]:
  "requestHeadersOf [] = []"
  "requestHeadersOf (a @ b) = requestHeadersOf a @ requestHeadersOf b"
  "requestHeadersOf (X_open mm u # b) = requestHeadersOf b"
  "requestHeadersOf (X_send cc # b) = requestHeadersOf b"
  "requestHeadersOf (X_abort # b) = requestHeadersOf b"
  "requestHeadersOf (X_detach d # b) = requestHeadersOf b"
  "requestHeadersOf (map (\<lambda>(key, v). X_setRequestHeader key v) hdrs) = hdrs"
  by (simp_all add: requestHeadersOf_def, induction hdrs) (auto simp: requestHeadersOf_def)

lemma Map_set_new:
  "key \<notin> fst ` set mp \<Longrightarrow> Map_set key v mp = mp @ [(key, v)]"
  by (induction mp) (auto simp: Map_set_def)

lemma send_headers_eq:
  "send_headers env x meth c hs =
     (let merged = (case hs of None \<Rightarrow> headers x
                    | Some l \<Rightarrow> fold (\<lambda>(key, v) mp. Map_set key v mp) l (headers x))
      in if meth \<in> {''POST'', ''PUT''} \<and>
            \<not> list_ex (caseInsensitiveEquals ''Content-Type'') (map fst merged) \<and>
            \<not> (global_FormData env \<and> c = FormDataContent)
         then merged @ [(''Content-Type'', ''application/x-www-form-urlencoded;charset=utf-8'')]
         else merged)"
proof -
  define merged where "merged = (case hs of None \<Rightarrow> headers x
                    | Some l \<Rightarrow> fold (\<lambda>(key, v) mp. Map_set key v mp) l (headers x))"
  have f: "find isContentTypeHeader_' (map fst merged) = None \<longleftrightarrow>
      \<not> list_ex (caseInsensitiveEquals ''Content-Type'') (map fst merged)"
    by (auto simp: find_None_iff list_ex_iff isContentTypeHeader_'_def CONTENT_TYPE_HEADER_def)
  have n: "\<not> list_ex (caseInsensitiveEquals ''Content-Type'') (map fst merged) \<Longrightarrow>
      ''Content-Type'' \<notin> fst ` set merged"
    by (auto simp: list_ex_iff caseInsensitiveEquals_def)
  show ?thesis
    unfolding send_headers_def merged_def[symmetric] Let_def f
    using n
    by (auto simp: Map_set_new METHODS_WITH_FORM_DATA_def CONTENT_TYPE_HEADER_def
        FORM_CONTENT_TYPE_def)
qed

lemma send_headers_cong:
  "headers x' = headers x \<Longrightarrow> send_headers env x' meth c hs = send_headers env x meth c hs"
  by (simp add: send_headers_def)

lemma send_try_headers:
  assumes h: "xhr_' x = Some h" and a: "active_' x"
  shows "requestHeadersOf (xhr_log (send_try env c x)) = requestHeadersOf (xhr_log x)"
proof -
  let ?x1 = "cleanUpTimeoutTimer_' x"
  define h1 where "h1 = (if useXhr2Timeout_' x then h\<lparr>ontimeout := OT_null\<rparr> else h)"
  have h1: "xhr_' ?x1 = Some h1"
    using h by (simp add: cleanUpTimeoutTimer_with_handle h1_def)
  let ?x2 = "(if timeoutInterval_' ?x1 > 0 then
                         let x1a = ?x1\<lparr>useXhr2Timeout_' := shouldUseXhr2Timeout_' env h1\<rparr>
                         in if useXhr2Timeout_' x1a then
                              x1a\<lparr>xhr_' := Some (h1\<lparr>timeout := Some (timeoutInterval_' x1a),
                                                    ontimeout := OT_timeout_'\<rparr>)\<rparr>
                            else
                              (Timer_callOnce CB_timeout_' (timeoutInterval_' x1a) x1a)
                                \<lparr>timeoutId_' := Some (timer_seq x1a)\<rparr>
                       else ?x1)"
  let ?y = "?x2\<lparr>inSend_' := True\<rparr>"
  let ?y' = "?y\<lparr>xhr_log := xhr_log ?y @ [X_send c]\<rparr>"
  let ?z = "snd (xhr_send env c h1 ?y)"
  have y: "active_' ?y" "inSend_' ?y" "xhr_' ?y' \<noteq> None" "xhr_log ?y' = xhr_log x @ [X_send c]"
    using h a by (simp_all add: cleanUpTimeoutTimer_with_handle Timer_callOnce_def Let_def)
  have q: "quiet ?y' ?z" using y by (intro xhr_send_quiet) auto
  then have c: "core ?z = core ?y'" by (simp add: quiet_def)
  have l: "xhr_log ?z = xhr_log x @ [X_send c]" using coreD(11)[OF c] y(4) by simp
  from y(3) obtain hy where "xhr_' ?y' = Some hy" by auto
  from quiet_handle[OF q this] obtain hz where hz: "xhr_' ?z = Some hz" by auto
  have st: "send_try env c x =
      (case fst (xhr_send env c h1 ?y) of None \<Rightarrow> ?z\<lparr>inSend_' := False\<rparr>
       | Some err \<Rightarrow> error_' env EC_EXCEPTION err ?z)"
    using h1 by (simp add: send_try_def Let_def split_beta)
  show ?thesis
  proof (cases "fst (xhr_send env c h1 ?y)")
    case None
    then show ?thesis using st l by simp
  next
    case (Some err)
    then show ?thesis using st l error_with_handle[OF hz, of env EC_EXCEPTION err] by simp
  qed
qed

text \<open>
  Claim C8. When \<^verbatim>\<open>open\<close> returns (without a notification of complete readiness from
  inside it), \<^verbatim>\<open>send\<close> passes to the transport the controller's headers with the
  headers of the call set over them, and appends
  \<^verbatim>\<open>Content-Type: application/x-www-form-urlencoded;charset=utf-8\<close> exactly when the
  method, in upper case, is POST or PUT, no header name equals content-type ignoring
  case, and the body is not a \<^verbatim>\<open>FormData\<close>; otherwise it passes them as they are.
\<close>

theorem content_type_default:
  assumes "xhr_' x = None" and "\<forall>n\<in>set (on_open created). fst n \<noteq> COMPLETE_STATE"
    and "open_throws created = None"
  shows "requestHeadersOf (xhr_log (snd (send env created options url m c hs x))) =
         requestHeadersOf (xhr_log x) @
         (let merged = (case hs of None \<Rightarrow> headers x
                        | Some l \<Rightarrow> fold (\<lambda>(key, v) mp. Map_set key v mp) l (headers x));
              meth = (case m of None \<Rightarrow> ''GET''
                      | Some m' \<Rightarrow> if m' = [] then ''GET'' else toUpperCase m')
          in if meth \<in> {''POST'', ''PUT''} \<and>
                \<not> list_ex (caseInsensitiveEquals ''Content-Type'') (map fst merged) \<and>
                \<not> (global_FormData env \<and> c = Some FormDataContent)
             then merged @
                  [(''Content-Type'', ''application/x-www-form-urlencoded;charset=utf-8'')]
             else merged)"
proof -
  let ?meth = "(case m of None \<Rightarrow> ''GET'' | Some m \<Rightarrow> if m = [] then ''GET'' else toUpperCase m)"
  let ?x1 = "x\<lparr>lastUri_' := url, lastError_' := [], lastErrorCode_' := EC_NO_ERROR,
                   lastMethod_' := ?meth, errorDispatched_' := False, active_' := True,
                   xhr_' := Some created, xhrOptions_' := Some options, inOpen_' := True\<rparr>"
  let ?x2 = "snd (xhr_open env ?meth url created ?x1)"
  let ?x1' = "?x1\<lparr>xhr_log := xhr_log ?x1 @ [X_open ?meth url]\<rparr>"
  have q: "quiet ?x1' ?x2"
    using assms(2) by (intro xhr_open_quiet) auto
  from q have c: "core ?x2 = core ?x1'" by (simp add: quiet_def)
  have "xhr_' ?x1' = Some created" by simp
  from quiet_handle[OF q this] obtain h2 where h2: "xhr_' ?x2 = Some h2" by auto
  have z: "active_' ?x2" "xhr_log ?x2 = xhr_log x @ [X_open ?meth url]"
    using coreD(1,11)[OF c] by simp_all
  have hd: "headers ?x2 = headers x"
  proof -
    have "headers (core ?x2) = headers (core ?x1')" using c by simp
    then show ?thesis by (simp add: core_def)
  qed
  have thr: "fst (xhr_open env ?meth url created ?x1) = None"
    using assms(3) by (simp add: xhr_open_def)
  let ?x3 = "?x2\<lparr>inOpen_' := False\<rparr>"
  let ?c = "(case c of None \<Rightarrow> StringContent [] | Some c' \<Rightarrow> c')"
  let ?hdrs = "send_headers env ?x3 ?meth ?c hs"
  let ?h1 = "h2\<lparr>responseType :=
                                    (if truthy_ResponseType (responseType_' ?x3)
                                     then Some (responseType_' ?x3) else responseType h2),
                                  withCredentials :=
                                    (case withCredentials h2 of
                                       Some b \<Rightarrow> Some (withCredentials_' ?x3)
                                     | None \<Rightarrow> None)\<rparr>"
  let ?x4 = "?x3\<lparr>xhr_' := Some ?h1,
                                  xhr_log := xhr_log ?x3 @
                                    map (\<lambda>(key, v). X_setRequestHeader key v) ?hdrs\<rparr>"
  have s: "snd (send env created options url m c hs x) = send_try env ?c ?x4"
    using assms(1) thr h2 by (simp add: send_def Let_def split_beta)
  have "xhr_' ?x4 = Some ?h1" "active_' ?x4" using z by simp_all
  from send_try_headers[OF this, of env ?c]
  have "requestHeadersOf (xhr_log (snd (send env created options url m c hs x))) =
      requestHeadersOf (xhr_log x) @ ?hdrs"
    unfolding s using z(2) by simp
  moreover have "(?c = FormDataContent) = (c = Some FormDataContent)"
    by (cases c) auto
  moreover have "?hdrs = send_headers env x ?meth ?c hs"
    using hd by (intro send_headers_cong) simp
  ultimately show ?thesis
    by (simp add: send_headers_eq Let_def)
qed

text \<open>
  The scenario of the specification: a POST of \<^verbatim>\<open>a=1\<close> with no content-type header
  gets the default; with a \<^verbatim>\<open>content-TYPE\<close> header of the call it does not.
\<close>

theorem content_type_default_witness:
  "requestHeadersOf (xhr_log (snd (send example_platform example_xhr example_options
      ''http://x/y'' (Some ''post'') (Some (StringContent ''a=1'')) None new_XhrIo))) =
     [(''Content-Type'', ''application/x-www-form-urlencoded;charset=utf-8'')] \<and>
   requestHeadersOf (xhr_log (snd (send example_platform example_xhr example_options
      ''http://x/y'' (Some ''post'') (Some (StringContent ''a=1''))
      (Some [(''content-TYPE'', ''text/plain'')]) new_XhrIo))) =
     [(''content-TYPE'', ''text/plain'')]"
proof -
  have h1: "xhr_' new_XhrIo = None" by (simp add: new_XhrIo_def)
  have h2: "\<forall>n\<in>set (on_open example_xhr). fst n \<noteq> COMPLETE_STATE"
    by (simp add: example_xhr_def)
  have h3: "open_throws example_xhr = None" by (simp add: example_xhr_def)
  note t = content_type_default[OF h1 h2 h3, of example_platform example_options "''http://x/y''"
      "Some ''post''" "Some (StringContent ''a=1'')"]
  have u: "toUpperCase ''post'' = ''POST''" by code_simp
  have v: "caseInsensitiveEquals ''Content-Type'' ''content-TYPE''" by code_simp
  from t[of None] u have 1: "requestHeadersOf (xhr_log (snd (send example_platform example_xhr
      example_options ''http://x/y'' (Some ''post'') (Some (StringContent ''a=1'')) None
      new_XhrIo))) = [(''Content-Type'', ''application/x-www-form-urlencoded;charset=utf-8'')]"
    by (simp add: new_XhrIo_def)
  from t[of "Some [(''content-TYPE'', ''text/plain'')]"] u v
  have 2: "requestHeadersOf (xhr_log (snd (send example_platform example_xhr example_options
      ''http://x/y'' (Some ''post'') (Some (StringContent ''a=1''))
      (Some [(''content-TYPE'', ''text/plain'')]) new_XhrIo))) =
     [(''content-TYPE'', ''text/plain'')]"
    by (simp add: new_XhrIo_def Map_set_def)
  from 1 2 show ?thesis by simp
qed

subsection \<open>Response accessors\<close>

text \<open>
  Claim C9, as the code has it. \<^verbatim>\<open>getStatus\<close>, \<^verbatim>\<open>getStatusText\<close>, \<^verbatim>\<open>getResponseText\<close>,
  \<^verbatim>\<open>getResponseBody\<close>, \<^verbatim>\<open>getResponseXml\<close> and \<^verbatim>\<open>getResponse\<close> catch what their read of
  the handle throws and return their neutral default: -1, the empty string, or null; they
  return it also when the controller has no handle. \<^verbatim>\<open>getResponseJson\<close>,
  \<^verbatim>\<open>getResponseHeader\<close> and \<^verbatim>\<open>getAllResponseHeaders\<close> have no try block: they return
  their default (undefined, or the empty string) when the controller has no handle, the
  header accessors also when the request is not complete, and otherwise an exception of
  the handle reaches the caller.
\<close>

theorem accessors_catch:
  "(xhr_' x = Some h \<longrightarrow>
      (status h = Throws msg \<longrightarrow> getStatus x = - 1) \<and>
      (statusText h = Throws msg \<longrightarrow> getStatusText x = []) \<and>
      (responseText h = Throws msg \<longrightarrow> getResponseText x = []) \<and>
      (responseBody h = Some (Throws msg) \<longrightarrow> getResponseBody x = Null) \<and>
      (responseXML h = Throws msg \<longrightarrow> getResponseXml x = Null) \<and>
      (response h = Some (Throws msg) \<longrightarrow> getResponse x = Null) \<and>
      (response h = None \<and> responseText h = Throws msg \<and>
       (responseType_' x = ResponseType_DEFAULT \<or> responseType_' x = TEXT) \<longrightarrow>
         getResponse x = Null) \<and>
      (response h = None \<and> mozResponseArrayBuffer h = Some (Throws msg) \<and>
       responseType_' x = ARRAY_BUFFER \<longrightarrow>
         getResponse x = Null) \<and>
      (responseText h = Throws msg \<longrightarrow> getResponseJson env pre x = Inl (Error msg)) \<and>
      (readyState h = COMPLETE_STATE \<and> allResponseHeaders h = Throws msg \<longrightarrow>
         getAllResponseHeaders x = Inl (Error msg)) \<and>
      (readyState h = COMPLETE_STATE \<and> responseHeaderTable h = Throws msg \<longrightarrow>
         getResponseHeader key x = Inl (Error msg)) \<and>
      (readyState h \<noteq> COMPLETE_STATE \<longrightarrow>
         getResponseHeader key x = Inr Undefined \<and> getAllResponseHeaders x = Inr [])) \<and>
   (xhr_' x = None \<longrightarrow>
      getStatus x = - 1 \<and> getStatusText x = [] \<and> getResponseText x = [] \<and>
      getResponseBody x = Null \<and> getResponseXml x = Null \<and> getResponse x = Null \<and>
      getResponseJson env pre x = Inr Undefined \<and> getResponseHeader key x = Inr Undefined \<and>
      getAllResponseHeaders x = Inr [])"
  by (auto simp: getStatus_def getStatusText_def getResponseText_def getResponseBody_def
      getResponseXml_def getResponse_def getResponseText_try_def getStatus_try_def
      getStatusText_try_def getResponseBody_try_def getResponseXml_try_def getResponse_try_def
      getResponseJson_def getAllResponseHeaders_def getResponseHeader_def
      xhr_getResponseHeader_def isComplete_def getReadyState_def UNINITIALIZED_def LOADED_def
      ResponseType_DEFAULT_def split: option.splits)

theorem accessors_catch_witness:
  "getStatus example_unreadable = - 1 \<and> getStatusText example_unreadable = [] \<and>
   getResponseText example_unreadable = [] \<and> getResponseBody example_unreadable = Null \<and>
   getResponseXml example_unreadable = Null \<and> getResponse example_unreadable = Null \<and>
   getResponseJson example_platform None example_unreadable = Inl (Error ''not available'') \<and>
   getAllResponseHeaders example_unreadable = Inl (Error ''not available'') \<and>
   getResponseHeader ''ETag'' example_unreadable = Inl (Error ''not available'') \<and>
   getResponse (example_unreadable\<lparr>xhr_' := Some example_xhr\<rparr>) = Null \<and>
   getAllResponseHeaders (example_unreadable\<lparr>xhr_' := Some example_xhr\<rparr>) = Inr [] \<and>
   getResponse (example_unreadable\<lparr>responseType_' := ARRAY_BUFFER,
     xhr_' := Some (example_xhr\<lparr>mozResponseArrayBuffer := Some (Throws ''not available'')\<rparr>)\<rparr>)
     = Null \<and>
   getResponseJson example_platform None new_XhrIo = Inr Undefined \<and>
   getResponse new_XhrIo = Null"
proof -
  let ?y = "example_unreadable\<lparr>xhr_' := Some example_xhr\<rparr>"
  note t = accessors_catch[of example_unreadable example_unreadable_xhr "''not available''"
      example_platform None "''ETag''"]
  note u = accessors_catch[of ?y example_xhr "''not available''" example_platform None "''ETag''"]
  let ?hz = "example_xhr\<lparr>mozResponseArrayBuffer := Some (Throws ''not available'')\<rparr>"
  let ?z = "example_unreadable\<lparr>responseType_' := ARRAY_BUFFER, xhr_' := Some ?hz\<rparr>"
  note w = accessors_catch[of ?z ?hz "''not available''" example_platform None "''ETag''"]
  have c: "xhr_' ?z = Some ?hz" "response ?hz = None"
    "mozResponseArrayBuffer ?hz = Some (Throws ''not available'')" "responseType_' ?z = ARRAY_BUFFER"
    by (simp_all add: example_xhr_def)
  note v = accessors_catch[of new_XhrIo example_xhr "''not available''" example_platform None
      "''ETag''"]
  have a: "xhr_' example_unreadable = Some example_unreadable_xhr"
    "status example_unreadable_xhr = Throws ''not available''"
    "statusText example_unreadable_xhr = Throws ''not available''"
    "responseText example_unreadable_xhr = Throws ''not available''"
    "responseBody example_unreadable_xhr = Some (Throws ''not available'')"
    "responseXML example_unreadable_xhr = Throws ''not available''"
    "response example_unreadable_xhr = Some (Throws ''not available'')"
    "readyState example_unreadable_xhr = COMPLETE_STATE"
    "allResponseHeaders example_unreadable_xhr = Throws ''not available''"
    "responseHeaderTable example_unreadable_xhr = Throws ''not available''"
    by (simp_all add: example_unreadable_def example_unreadable_xhr_def example_xhr_def
        COMPLETE_STATE_def)
  have b: "xhr_' ?y = Some example_xhr" "response example_xhr = None"
    "responseText example_xhr = Throws ''not available''"
    "readyState example_xhr \<noteq> COMPLETE_STATE" "responseType_' ?y = ResponseType_DEFAULT"
    by (simp_all add: example_xhr_def COMPLETE_STATE_def example_unreadable_def new_XhrIo_def)
  have d: "xhr_' new_XhrIo = None" by (simp add: new_XhrIo_def)
  from t a have 1: "getStatus example_unreadable = - 1" "getStatusText example_unreadable = []"
    "getResponseText example_unreadable = []" "getResponseBody example_unreadable = Null"
    "getResponseXml example_unreadable = Null" "getResponse example_unreadable = Null"
    "getResponseJson example_platform None example_unreadable = Inl (Error ''not available'')"
    "getAllResponseHeaders example_unreadable = Inl (Error ''not available'')"
    "getResponseHeader ''ETag'' example_unreadable = Inl (Error ''not available'')"
    by blast+
  from u b have 2: "getResponse ?y = Null" "getAllResponseHeaders ?y = Inr []" by blast+
  from v d have 3: "getResponseJson example_platform None new_XhrIo = Inr Undefined"
    "getResponse new_XhrIo = Null" by blast+
  from w c have 4: "getResponse ?z = Null" by blast
  from 1 2 3 4 show ?thesis by simp
qed

text \<open>
  Claim C9 as the specification states it fails for the parsed payload: with a handle
  that throws on a read of \<^verbatim>\<open>responseText\<close>, \<^verbatim>\<open>getResponseJson\<close> lets the exception through.
\<close>

theorem accessors_catch_counterexample:
  "getResponseJson example_platform None example_unreadable = Inl (Error ''not available'')"
  by code_simp

subsection \<open>A completion notified from inside send\<close>

lemma notify_progress:
  assumes "xhr_' x = Some h" "active_' x" "\<not> disposed_' x" "\<not> goog_undefined env"
    "fst n \<noteq> COMPLETE_STATE"
  shows "notify env n x =
     x\<lparr>xhr_' := Some (xhr_readiness n h), dispatched := dispatched x @ [READY_STATE_CHANGE]\<rparr>"
proof -
  have rs: "readyState (xhr_readiness n h) = fst n" by (simp add: xhr_readiness_def)
  show ?thesis using assms rs
    by (simp add: notify_def handler_defs getReadyState_def isComplete_def dispatchEvent_def
        Let_def)
qed

lemma fold_notify_progress:
  assumes "xhr_' x = Some h" "active_' x" "\<not> disposed_' x" "\<not> goog_undefined env"
    "\<forall>n\<in>set ns. fst n \<noteq> COMPLETE_STATE"
  shows "fold (notify env) ns x =
     x\<lparr>xhr_' := Some (fold xhr_readiness ns h),
       dispatched := dispatched x @ replicate (length ns) READY_STATE_CHANGE\<rparr>"
  using assms
proof (induction ns arbitrary: x h)
  case Nil
  then show ?case by simp
next
  case (Cons n ns)
  let ?x' = "x\<lparr>xhr_' := Some (xhr_readiness n h), dispatched := dispatched x @ [READY_STATE_CHANGE]\<rparr>"
  have n: "notify env n x = ?x'" using Cons.prems by (intro notify_progress) auto
  have "fold (notify env) ns ?x' =
     ?x'\<lparr>xhr_' := Some (fold xhr_readiness ns (xhr_readiness n h)),
       dispatched := dispatched ?x' @ replicate (length ns) READY_STATE_CHANGE\<rparr>"
    using Cons.prems by (intro Cons.IH) auto
  then show ?case using n by (simp add: replicate_append_same)
qed

lemma fold_readiness_fields [simp]:
  "on_send (fold xhr_readiness ns h) = on_send h"
  "send_throws (fold xhr_readiness ns h) = send_throws h"
  by (induction ns arbitrary: h) (simp_all add: xhr_readiness_def)

lemma read_frame [simp]:
  "getReadyState (x\<lparr>dispatched := d\<rparr>) = getReadyState x"
  "getReadyState (x\<lparr>active_' := a\<rparr>) = getReadyState x"
  "getStatus (x\<lparr>dispatched := d\<rparr>) = getStatus x"
  "getStatus (x\<lparr>active_' := a\<rparr>) = getStatus x"
  "getStatusText (x\<lparr>dispatched := d\<rparr>) = getStatusText x"
  "getStatusText (x\<lparr>active_' := a\<rparr>) = getStatusText x"
  "isSuccess env (x\<lparr>dispatched := d\<rparr>) = isSuccess env x"
  "isSuccess env (x\<lparr>active_' := a\<rparr>) = isSuccess env x"
  "xhrOption k (x\<lparr>dispatched := d\<rparr>) = xhrOption k x"
  "xhrOption k (x\<lparr>active_' := a\<rparr>) = xhrOption k x"
  by (simp_all add: read_defs)

lemma handler_complete_opt:
  assumes "xhr_' w = Some hw" "readyState hw = COMPLETE_STATE" "active_' w" "\<not> disposed_' w"
    "\<not> goog_undefined env" "\<not> inSend_' w"
    "\<not> (xhrOption LOCAL_REQUEST_ERROR w \<and> status hw = Val 2)" "\<not> errorDispatched_' w"
  shows "dispatched (onReadyStateChange_' env w) =
           dispatched w @
           [READY_STATE_CHANGE, COMPLETE, if isSuccess env w then SUCCESS else ERROR, READY]"
proof -
  have rs: "getReadyState w = COMPLETE_STATE" using assms by (simp add: getReadyState_def)
  have q: "\<not> (xhrOption LOCAL_REQUEST_ERROR w \<and> getStatus w = 2)"
    using assms(1,2,7)
    by (cases "status hw")
      (auto simp: getStatus_def getStatus_try_def getReadyState_def
        COMPLETE_STATE_def LOADED_def)
  have h: "onReadyStateChangeHelper_' env w =
      (let x2 = (dispatchEvent READY_STATE_CHANGE w)\<lparr>active_' := False\<rparr>;
           x3 = (if isSuccess env w then dispatchEvent SUCCESS (dispatchEvent COMPLETE x2)
                 else dispatchErrors_'
                        (x2\<lparr>lastErrorCode_' := EC_HTTP_ERROR,
                            lastError_' :=
                              getStatusText w @ '' ['' @ String_of (getStatus w) @ '']''\<rparr>))
       in cleanUpXhr_' False x3)"
    using assms(3,5,6) rs q
    by (auto simp: onReadyStateChangeHelper_'_def isComplete_def Let_def dispatchEvent_def)
  show ?thesis
  proof (cases "isSuccess env w")
    case True
    then show ?thesis using assms(1,4,8) h
      by (simp add: onReadyStateChange_'_def onReadyStateChangeEntryPoint_'_def cleanup_defs
          Let_def split: option.splits)
  next
    case False
    then show ?thesis using assms(1,4,8) h
      by (simp add: onReadyStateChange_'_def onReadyStateChangeEntryPoint_'_def cleanup_defs
          Let_def split: option.splits)
  qed
qed

lemma handler_complete:
  assumes "xhr_' w = Some hw" "readyState hw = COMPLETE_STATE" "active_' w" "\<not> disposed_' w"
    "\<not> goog_undefined env" "\<not> inSend_' w" "xhrOptions_' w = Some options"
    "\<not> (LOCAL_REQUEST_ERROR options \<and> status hw = Val 2)" "\<not> errorDispatched_' w"
  shows "dispatched (onReadyStateChange_' env w) =
           dispatched w @
           [READY_STATE_CHANGE, COMPLETE, if isSuccess env w then SUCCESS else ERROR, READY]"
  using assms by (intro handler_complete_opt) (simp_all add: xhrOption_def)

lemma notify_deferred:
  assumes "xhr_' y = Some hy" "active_' y" "\<not> disposed_' y" "\<not> goog_undefined env"
    "inSend_' y" "xhrOptions_' y = Some options"
    "\<not> (LOCAL_REQUEST_ERROR options \<and> st = Val 2)"
  shows "notify env (COMPLETE_STATE, st) y =
     Timer_callOnce CB_onReadyStateChange_' 0
       (y\<lparr>xhr_' := Some (xhr_readiness (COMPLETE_STATE, st) hy)\<rparr>)"
proof -
  let ?w = "y\<lparr>xhr_' := Some (xhr_readiness (COMPLETE_STATE, st) hy)\<rparr>"
  have rs: "getReadyState ?w = COMPLETE_STATE"
    by (simp add: getReadyState_def xhr_readiness_def)
  have q: "\<not> (xhrOption LOCAL_REQUEST_ERROR ?w \<and> getStatus ?w = 2)"
    using assms(6,7)
    by (cases st)
      (auto simp: xhrOption_def getStatus_def getStatus_try_def getReadyState_def
        xhr_readiness_def COMPLETE_STATE_def LOADED_def)
  have "onReadyStateChangeHelper_' env ?w = Timer_callOnce CB_onReadyStateChange_' 0 ?w"
    using assms(2,4,5) rs q by (auto simp: onReadyStateChangeHelper_'_def)
  then show ?thesis using assms(1,3,5)
    by (simp add: notify_def onReadyStateChange_'_def)
qed

lemma send_try_sync_completion:
  assumes h: "xhr_' x = Some h" and a: "active_' x" "\<not> disposed_' x" "\<not> goog_undefined env"
    "\<not> errorDispatched_' x" and t: "send_throws h = None"
    "on_send h = [(COMPLETE_STATE, st)]" and o: "xhrOptions_' x = Some options"
    "\<not> (LOCAL_REQUEST_ERROR options \<and> st = Val 2)"
  shows "dispatched (send_try env c x) = dispatched x \<and>
         timers (send_try env c x) \<noteq> [] \<and>
         snd (last (timers (send_try env c x))) = (CB_onReadyStateChange_', 0) \<and>
         dispatched (onReadyStateChange_' env (send_try env c x)) =
           dispatched x @
           [READY_STATE_CHANGE, COMPLETE,
            if isSuccess env (send_try env c x) then SUCCESS else ERROR, READY]"
proof -
  let ?x1 = "cleanUpTimeoutTimer_' x"
  define h1 where "h1 = (if useXhr2Timeout_' x then h\<lparr>ontimeout := OT_null\<rparr> else h)"
  have h1: "xhr_' ?x1 = Some h1"
    using h by (simp add: cleanUpTimeoutTimer_with_handle h1_def)
  have t1: "send_throws h1 = None" "on_send h1 = [(COMPLETE_STATE, st)]"
    using t by (simp_all add: h1_def)
  let ?x2 = "(if timeoutInterval_' ?x1 > 0 then
                         let x1a = ?x1\<lparr>useXhr2Timeout_' := shouldUseXhr2Timeout_' env h1\<rparr>
                         in if useXhr2Timeout_' x1a then
                              x1a\<lparr>xhr_' := Some (h1\<lparr>timeout := Some (timeoutInterval_' x1a),
                                                    ontimeout := OT_timeout_'\<rparr>)\<rparr>
                            else
                              (Timer_callOnce CB_timeout_' (timeoutInterval_' x1a) x1a)
                                \<lparr>timeoutId_' := Some (timer_seq x1a)\<rparr>
                       else ?x1)"
  define y where "y = ?x2\<lparr>inSend_' := True, xhr_log := xhr_log ?x2 @ [X_send c]\<rparr>"
  have y: "xhr_' y \<noteq> None" "active_' y" "\<not> disposed_' y" "inSend_' y"
    "xhrOptions_' y = Some options" "\<not> errorDispatched_' y" "dispatched y = dispatched x"
    using h a o
    by (simp_all add: y_def cleanUpTimeoutTimer_with_handle Timer_callOnce_def Let_def)
  then obtain hy where hy: "xhr_' y = Some hy" by auto
  define w where "w = y\<lparr>xhr_' := Some (xhr_readiness (COMPLETE_STATE, st) hy)\<rparr>"
  define z where "z = Timer_callOnce CB_onReadyStateChange_' 0 w"
  have n: "notify env (COMPLETE_STATE, st) y = z"
    unfolding z_def w_def using hy y a(3) o(2) by (intro notify_deferred) auto
  have st: "send_try env c x = z\<lparr>inSend_' := False\<rparr>"
    using h1 t1 n by (simp add: send_try_def xhr_send_def Let_def y_def)
  let ?x' = "z\<lparr>inSend_' := False\<rparr>"
  have x': "xhr_' ?x' = Some (xhr_readiness (COMPLETE_STATE, st) hy)" "active_' ?x'"
    "\<not> disposed_' ?x'" "\<not> inSend_' ?x'" "xhrOptions_' ?x' = Some options"
    "\<not> errorDispatched_' ?x'" "dispatched ?x' = dispatched x"
    "timers ?x' = timers y @ [(timer_seq y, CB_onReadyStateChange_', 0)]"
    using y by (simp_all add: z_def w_def Timer_callOnce_def)
  have r: "readyState (xhr_readiness (COMPLETE_STATE, st) hy) = COMPLETE_STATE"
    "status (xhr_readiness (COMPLETE_STATE, st) hy) = st"
    by (simp_all add: xhr_readiness_def)
  from handler_complete[OF x'(1) r(1) x'(2) x'(3) a(3) x'(4) x'(5) _ x'(6)] o(2) r(2)
  have "dispatched (onReadyStateChange_' env ?x') =
           dispatched ?x' @
           [READY_STATE_CHANGE, COMPLETE, if isSuccess env ?x' then SUCCESS else ERROR, READY]"
    by simp
  then show ?thesis unfolding st using x'(7,8) by simp
qed

text \<open>
  Claim C3. On a controller that is not disposed, with the library loaded, let the
  transport notify complete readiness synchronously from inside its \<^verbatim>\<open>send\<close> (a cached
  response; \<^verbatim>\<open>open\<close> and \<^verbatim>\<open>send\<close> do not throw, and the notification is not the
  local-request error that the handler ignores). Then \<^verbatim>\<open>send\<close> returns normally having
  dispatched only the \<^verbatim>\<open>READY_STATE_CHANGE\<close> events of the notifications from inside
  \<^verbatim>\<open>open\<close>: nothing for the completion, which is left as a zero-delay timer for
  \<^verbatim>\<open>onReadyStateChange_\<close>, the last one scheduled. When that call runs after \<^verbatim>\<open>send\<close>
  has returned, it dispatches \<^verbatim>\<open>READY_STATE_CHANGE\<close>, \<^verbatim>\<open>COMPLETE\<close>, the outcome and
  \<^verbatim>\<open>READY\<close>.
\<close>

theorem sync_completion_is_deferred:
  assumes "xhr_' x = None" and "\<not> disposed_' x" and "\<not> goog_undefined env"
    and "\<forall>n\<in>set (on_open created). fst n \<noteq> COMPLETE_STATE"
    and "open_throws created = None" and "send_throws created = None"
    and "on_send created = [(COMPLETE_STATE, st)]"
    and "\<not> (LOCAL_REQUEST_ERROR options \<and> st = Val 2)"
  shows "fst (send env created options url m c hs x) = None \<and>
         dispatched (snd (send env created options url m c hs x)) =
           dispatched x @ replicate (length (on_open created)) READY_STATE_CHANGE \<and>
         timers (snd (send env created options url m c hs x)) \<noteq> [] \<and>
         snd (last (timers (snd (send env created options url m c hs x)))) =
           (CB_onReadyStateChange_', 0) \<and>
         dispatched (onReadyStateChange_' env (snd (send env created options url m c hs x))) =
           dispatched (snd (send env created options url m c hs x)) @
           [READY_STATE_CHANGE, COMPLETE,
            if isSuccess env (snd (send env created options url m c hs x)) then SUCCESS
            else ERROR,
            READY]"
proof -
  let ?meth = "(case m of None \<Rightarrow> ''GET'' | Some m \<Rightarrow> if m = [] then ''GET'' else toUpperCase m)"
  let ?x1 = "x\<lparr>lastUri_' := url, lastError_' := [], lastErrorCode_' := EC_NO_ERROR,
                   lastMethod_' := ?meth, errorDispatched_' := False, active_' := True,
                   xhr_' := Some created, xhrOptions_' := Some options, inOpen_' := True\<rparr>"
  let ?x2 = "snd (xhr_open env ?meth url created ?x1)"
  let ?x1' = "?x1\<lparr>xhr_log := xhr_log ?x1 @ [X_open ?meth url]\<rparr>"
  let ?h2 = "fold xhr_readiness (on_open created) created"
  have "fold (notify env) (on_open created) ?x1' =
     ?x1'\<lparr>xhr_' := Some ?h2,
       dispatched := dispatched ?x1' @ replicate (length (on_open created)) READY_STATE_CHANGE\<rparr>"
    using assms(2,3,4) by (intro fold_notify_progress) auto
  then have x2: "?x2 = ?x1'\<lparr>xhr_' := Some ?h2,
       dispatched := dispatched x @ replicate (length (on_open created)) READY_STATE_CHANGE\<rparr>"
    by (simp add: xhr_open_def)
  have h2: "xhr_' ?x2 = Some ?h2" by (subst x2) simp
  have f2: "active_' ?x2" "\<not> disposed_' ?x2" "\<not> errorDispatched_' ?x2"
    "xhrOptions_' ?x2 = Some options"
    "dispatched ?x2 = dispatched x @ replicate (length (on_open created)) READY_STATE_CHANGE"
    using assms(2) by (subst x2, simp)+
  have thr: "fst (xhr_open env ?meth url created ?x1) = None"
    using assms(5) by (simp add: xhr_open_def)
  let ?x3 = "?x2\<lparr>inOpen_' := False\<rparr>"
  let ?c = "(case c of None \<Rightarrow> StringContent [] | Some c' \<Rightarrow> c')"
  let ?hdrs = "send_headers env ?x3 ?meth ?c hs"
  let ?h1 = "?h2\<lparr>responseType :=
                                    (if truthy_ResponseType (responseType_' ?x3)
                                     then Some (responseType_' ?x3) else responseType ?h2),
                                  withCredentials :=
                                    (case withCredentials ?h2 of
                                       Some b \<Rightarrow> Some (withCredentials_' ?x3)
                                     | None \<Rightarrow> None)\<rparr>"
  let ?x4 = "?x3\<lparr>xhr_' := Some ?h1,
                                  xhr_log := xhr_log ?x3 @
                                    map (\<lambda>(key, v). X_setRequestHeader key v) ?hdrs\<rparr>"
  have s: "send env created options url m c hs x = (None, send_try env ?c ?x4)"
    using assms(1) thr h2 by (simp add: send_def Let_def split_beta)
  have x4: "xhr_' ?x4 = Some ?h1" "active_' ?x4" "\<not> disposed_' ?x4" "\<not> errorDispatched_' ?x4"
    "send_throws ?h1 = None" "on_send ?h1 = [(COMPLETE_STATE, st)]"
    "xhrOptions_' ?x4 = Some options"
    "dispatched ?x4 = dispatched x @ replicate (length (on_open created)) READY_STATE_CHANGE"
    using f2 assms(6,7) by simp_all
  from send_try_sync_completion[OF x4(1,2,3) assms(3) x4(4,5,6,7) assms(8), of ?c]
  show ?thesis unfolding s using x4(8) by simp
qed

theorem sync_completion_is_deferred_witness:
  "dispatched (snd (send example_platform example_cached_xhr example_options ''http://x/y''
      None None None new_XhrIo)) = [READY_STATE_CHANGE] \<and>
   snd (last (timers (snd (send example_platform example_cached_xhr example_options
      ''http://x/y'' None None None new_XhrIo)))) = (CB_onReadyStateChange_', 0) \<and>
   dispatched (onReadyStateChange_' example_platform
     (snd (send example_platform example_cached_xhr example_options ''http://x/y''
        None None None new_XhrIo))) =
     [READY_STATE_CHANGE, READY_STATE_CHANGE, COMPLETE, SUCCESS, READY]"
proof -
  let ?x' = "snd (send example_platform example_cached_xhr example_options ''http://x/y''
      None None None new_XhrIo)"
  have h: "xhr_' new_XhrIo = None" "\<not> disposed_' new_XhrIo" "\<not> goog_undefined example_platform"
    "\<forall>n\<in>set (on_open example_cached_xhr). fst n \<noteq> COMPLETE_STATE"
    "open_throws example_cached_xhr = None" "send_throws example_cached_xhr = None"
    "on_send example_cached_xhr = [(COMPLETE_STATE, Val 200)]"
    "\<not> (LOCAL_REQUEST_ERROR example_options \<and> Val 200 = (Val 2 :: int property))"
    by (simp_all add: new_XhrIo_def example_platform_def example_cached_xhr_def example_xhr_def
        example_options_def COMPLETE_STATE_def)
  have i: "isSuccess example_platform ?x'" by code_simp
  have l: "length (on_open example_cached_xhr) = 1" "dispatched new_XhrIo = []"
    by (simp_all add: example_cached_xhr_def new_XhrIo_def)
  from sync_completion_is_deferred[OF h, of "''http://x/y''" None None None] i l
  show ?thesis by simp
qed

subsection \<open>Options are present with the handle\<close>

lemma well_formed_new: "well_formed new_XhrIo"
  by (simp add: well_formed_def new_XhrIo_def)

lemma handler_well_formed: "well_formed x \<Longrightarrow> well_formed (onReadyStateChange_' env x)"
  by (cases "xhr_' x")
    (auto simp: well_formed_def handler_defs isComplete_def getReadyState_def cleanup_defs Let_def
      split: option.splits)

lemma notify_well_formed: "well_formed x \<Longrightarrow> well_formed (notify env n x)"
proof (cases "xhr_' x")
  case None
  then show "well_formed x \<Longrightarrow> ?thesis" by (simp add: notify_def)
next
  case (Some h)
  assume "well_formed x"
  then have "well_formed (x\<lparr>xhr_' := Some (xhr_readiness n h)\<rparr>)"
    using Some by (simp add: well_formed_def)
  then show ?thesis using Some by (simp add: notify_def handler_well_formed)
qed

lemma fold_notify_well_formed: "well_formed x \<Longrightarrow> well_formed (fold (notify env) ns x)"
  by (induction ns arbitrary: x) (simp_all add: notify_well_formed)

lemma abort_well_formed: "well_formed x \<Longrightarrow> well_formed (abort env c x)"
proof (cases "xhr_' x \<noteq> None \<and> active_' x")
  case True
  then obtain h where "xhr_' x = Some h" "active_' x" by auto
  from abort_active[OF this, of env c] show ?thesis by (simp add: well_formed_def)
next
  case False
  then show "well_formed x \<Longrightarrow> ?thesis" using abort_noop[of x env c] by auto
qed

lemma error_well_formed: "well_formed (error_' env c e x)"
proof (cases "xhr_' x")
  case None
  from error_without_handle[OF this, of env c e] None show ?thesis
    by (simp add: well_formed_def)
next
  case (Some h)
  from error_with_handle[OF this, of env c e] show ?thesis by (simp add: well_formed_def)
qed

lemma timeout_well_formed: "well_formed x \<Longrightarrow> well_formed (timeout_' env x)"
proof -
  assume w: "well_formed x"
  let ?y = "dispatchEvent TIMEOUT (x\<lparr>lastError_' :=
                     ''Timed out after '' @ String_of (timeoutInterval_' x) @ ''ms, aborting'',
                   lastErrorCode_' := EC_TIMEOUT\<rparr>)"
  have "well_formed ?y" using w by (simp add: well_formed_def dispatchEvent_def)
  then have "well_formed (abort env (Some EC_TIMEOUT) ?y)" by (rule abort_well_formed)
  then show ?thesis using w by (simp add: timeout_'_def Let_def)
qed

lemma dispose_well_formed: "well_formed x \<Longrightarrow> well_formed (dispose env x)"
proof (cases "xhr_' x")
  case None
  then show "well_formed x \<Longrightarrow> ?thesis"
    by (simp add: dispose_def disposeInternal_def well_formed_def)
next
  case (Some h)
  then have "xhr_' (x\<lparr>disposed_' := True\<rparr>) = Some h" by simp
  from disposeInternal_with_handle[OF this, of env] show "well_formed x \<Longrightarrow> ?thesis"
    by (simp add: dispose_def well_formed_def)
qed

lemma step_well_formed: "well_formed x \<Longrightarrow> well_formed (step env st x)"
proof (cases st)
  case (TimerFires i)
  assume w: "well_formed x"
  show ?thesis
  proof (cases "find (\<lambda>t. fst t = i) (timers x)")
    case None
    then show ?thesis using w TimerFires by (simp add: timer_fires_def)
  next
    case (Some t)
    let ?y = "x\<lparr>timers := filter (\<lambda>t. fst t \<noteq> i) (timers x)\<rparr>"
    have "well_formed ?y" using w by (simp add: well_formed_def)
    then have "well_formed (timeout_' env ?y)" "well_formed (onReadyStateChange_' env ?y)"
      by (simp_all add: timeout_well_formed handler_well_formed)
    then show ?thesis using Some TimerFires
      by (cases "fst (snd t)") (simp_all add: timer_fires_def Let_def)
  qed
next
  case NativeTimeout
  then show "well_formed x \<Longrightarrow> ?thesis" using timeout_well_formed[of x env]
    by (auto simp: native_timeout_def split: option.splits)
next
  case (CallSetTimeoutInterval ms)
  then show "well_formed x \<Longrightarrow> ?thesis" by (simp add: setTimeoutInterval_def well_formed_def)
qed (simp_all add: notify_well_formed abort_well_formed dispose_well_formed)

lemma run_well_formed: "well_formed x \<Longrightarrow> well_formed (run env sts x)"
  unfolding run_def by (induction sts arbitrary: x) (simp_all add: step_well_formed)

lemma send_try_well_formed:
  assumes h: "xhr_' x = Some h" and w: "well_formed x"
  shows "well_formed (send_try env c x)"
proof -
  let ?x1 = "cleanUpTimeoutTimer_' x"
  define h1 where "h1 = (if useXhr2Timeout_' x then h\<lparr>ontimeout := OT_null\<rparr> else h)"
  have h1: "xhr_' ?x1 = Some h1"
    using h by (simp add: cleanUpTimeoutTimer_with_handle h1_def)
  let ?x2 = "(if timeoutInterval_' ?x1 > 0 then
                         let x1a = ?x1\<lparr>useXhr2Timeout_' := shouldUseXhr2Timeout_' env h1\<rparr>
                         in if useXhr2Timeout_' x1a then
                              x1a\<lparr>xhr_' := Some (h1\<lparr>timeout := Some (timeoutInterval_' x1a),
                                                    ontimeout := OT_timeout_'\<rparr>)\<rparr>
                            else
                              (Timer_callOnce CB_timeout_' (timeoutInterval_' x1a) x1a)
                                \<lparr>timeoutId_' := Some (timer_seq x1a)\<rparr>
                       else ?x1)"
  let ?y = "?x2\<lparr>inSend_' := True, xhr_log := xhr_log ?x2 @ [X_send c]\<rparr>"
  let ?z = "fold (notify env) (on_send h1) ?y"
  have "well_formed ?y"
    using h w
    by (simp add: well_formed_def cleanUpTimeoutTimer_with_handle Timer_callOnce_def Let_def)
  then have z: "well_formed ?z" by (rule fold_notify_well_formed)
  have st: "send_try env c x =
      (case send_throws h1 of None \<Rightarrow> ?z\<lparr>inSend_' := False\<rparr>
       | Some err \<Rightarrow> error_' env EC_EXCEPTION err ?z)"
    using h1 by (simp add: send_try_def xhr_send_def Let_def)
  show ?thesis
  proof (cases "send_throws h1")
    case None
    have "well_formed (?z\<lparr>inSend_' := False\<rparr>)" using z by (simp add: well_formed_def)
    then show ?thesis unfolding st None by simp
  next
    case (Some err)
    show ?thesis unfolding st Some by (simp add: error_well_formed)
  qed
qed

lemma send_well_formed:
  assumes "well_formed x"
  shows "well_formed (snd (send env created options url m c hs x))"
proof (cases "xhr_' x")
  case (Some h)
  then show ?thesis using assms by (simp add: send_def)
next
  case n: None
  let ?meth = "(case m of None \<Rightarrow> ''GET'' | Some m \<Rightarrow> if m = [] then ''GET'' else toUpperCase m)"
  let ?x1 = "x\<lparr>lastUri_' := url, lastError_' := [], lastErrorCode_' := EC_NO_ERROR,
                   lastMethod_' := ?meth, errorDispatched_' := False, active_' := True,
                   xhr_' := Some created, xhrOptions_' := Some options, inOpen_' := True\<rparr>"
  let ?x2 = "snd (xhr_open env ?meth url created ?x1)"
  have "well_formed (?x1\<lparr>xhr_log := xhr_log ?x1 @ [X_open ?meth url]\<rparr>)"
    by (simp add: well_formed_def)
  then have x2: "well_formed ?x2"
    by (simp add: xhr_open_def fold_notify_well_formed)
  have thr: "fst (xhr_open env ?meth url created ?x1) = open_throws created"
    by (simp add: xhr_open_def)
  show ?thesis
  proof (cases "open_throws created")
    case (Some err)
    then have "snd (send env created options url m c hs x) = error_' env EC_EXCEPTION err ?x2"
      using n thr by (simp add: send_def Let_def split_beta)
    then show ?thesis by (simp add: error_well_formed)
  next
    case None
    let ?x3 = "?x2\<lparr>inOpen_' := False\<rparr>"
    have x3: "well_formed ?x3" using x2 by (simp add: well_formed_def)
    show ?thesis
    proof (cases "xhr_' ?x2")
      case N: None
      then have "snd (send env created options url m c hs x) = ?x3"
        using n None thr by (simp add: send_def Let_def split_beta)
      then show ?thesis using x3 by simp
    next
      case (Some h2)
      let ?c = "(case c of None \<Rightarrow> StringContent [] | Some c' \<Rightarrow> c')"
      let ?hdrs = "send_headers env ?x3 ?meth ?c hs"
      let ?h1 = "h2\<lparr>responseType :=
                                    (if truthy_ResponseType (responseType_' ?x3)
                                     then Some (responseType_' ?x3) else responseType h2),
                                  withCredentials :=
                                    (case withCredentials h2 of
                                       Some b \<Rightarrow> Some (withCredentials_' ?x3)
                                     | None \<Rightarrow> None)\<rparr>"
      let ?x4 = "?x3\<lparr>xhr_' := Some ?h1,
                                  xhr_log := xhr_log ?x3 @
                                    map (\<lambda>(key, v). X_setRequestHeader key v) ?hdrs\<rparr>"
      have s: "snd (send env created options url m c hs x) = send_try env ?c ?x4"
        using n None Some thr by (simp add: send_def Let_def split_beta)
      have "xhr_' ?x4 = Some ?h1" by simp
      moreover have "well_formed ?x4" using x3 Some by (simp add: well_formed_def)
      ultimately show ?thesis unfolding s by (rule send_try_well_formed)
    qed
  qed
qed

subsection \<open>Success classification\<close>

lemma handler_complete_code:
  assumes "xhr_' w = Some hw" "readyState hw = COMPLETE_STATE" "active_' w" "\<not> disposed_' w"
    "\<not> goog_undefined env" "\<not> inSend_' w" "xhrOptions_' w = Some options"
    "\<not> (LOCAL_REQUEST_ERROR options \<and> status hw = Val 2)" "\<not> isSuccess env w"
  shows "lastErrorCode_' (onReadyStateChange_' env w) = EC_HTTP_ERROR"
proof -
  have rs: "getReadyState w = COMPLETE_STATE" using assms by (simp add: getReadyState_def)
  have q: "\<not> (xhrOption LOCAL_REQUEST_ERROR w \<and> getStatus w = 2)"
    using assms(1,2,7,8)
    by (cases "status hw")
      (auto simp: xhrOption_def getStatus_def getStatus_try_def getReadyState_def
        COMPLETE_STATE_def LOADED_def)
  have h: "onReadyStateChangeHelper_' env w =
      cleanUpXhr_' False (dispatchErrors_'
                        ((dispatchEvent READY_STATE_CHANGE w)\<lparr>active_' := False,
                            lastErrorCode_' := EC_HTTP_ERROR,
                            lastError_' :=
                              getStatusText w @ '' ['' @ String_of (getStatus w) @ '']''\<rparr>))"
    using assms(3,5,6,9) rs q
    by (auto simp: onReadyStateChangeHelper_'_def isComplete_def Let_def dispatchEvent_def)
  show ?thesis using assms(1,4) h
    by (simp add: onReadyStateChange_'_def onReadyStateChangeEntryPoint_'_def cleanup_defs
        Let_def split: option.splits)
qed

text \<open>
  Claim C5. \<^verbatim>\<open>isSuccess\<close> is true exactly when \<^verbatim>\<open>goog.net.HttpStatus.isSuccess\<close> accepts the
  status, or the status is 0 and the effective scheme of the last URI is neither http nor
  https in any letter case. The status is that of \<^verbatim>\<open>getStatus\<close>, which at terminal
  readiness is the status the handle reports. At terminal readiness of a request in
  flight the handler dispatches \<^verbatim>\<open>SUCCESS\<close> when \<^verbatim>\<open>isSuccess\<close> is true; every other status
  is a failure: it dispatches \<^verbatim>\<open>ERROR\<close> and the error code is \<^verbatim>\<open>HTTP_ERROR\<close>.
\<close>

theorem isSuccess_classification:
  "(isSuccess env x \<longleftrightarrow>
      HttpStatus_isSuccess env (getStatus x) \<or>
      getStatus x = 0 \<and>
        toLowerCase (getEffectiveScheme env (lastUri_' x)) \<noteq> ''http'' \<and>
        toLowerCase (getEffectiveScheme env (lastUri_' x)) \<noteq> ''https'') \<and>
   (xhr_' x = Some h \<and> readyState h = COMPLETE_STATE \<and> status h = Val st \<longrightarrow>
      getStatus x = st) \<and>
   (xhr_' x = Some h \<and> readyState h = COMPLETE_STATE \<and> active_' x \<and> \<not> disposed_' x \<and>
    \<not> goog_undefined env \<and> \<not> inSend_' x \<and> xhrOptions_' x = Some options \<and>
    \<not> (LOCAL_REQUEST_ERROR options \<and> status h = Val 2) \<and> \<not> errorDispatched_' x \<longrightarrow>
      dispatched (onReadyStateChange_' env x) =
        dispatched x @
        [READY_STATE_CHANGE, COMPLETE, if isSuccess env x then SUCCESS else ERROR, READY] \<and>
      (\<not> isSuccess env x \<longrightarrow> lastErrorCode_' (onReadyStateChange_' env x) = EC_HTTP_ERROR))"
proof (intro conjI impI)
  show "isSuccess env x \<longleftrightarrow>
      HttpStatus_isSuccess env (getStatus x) \<or>
      getStatus x = 0 \<and>
        toLowerCase (getEffectiveScheme env (lastUri_' x)) \<noteq> ''http'' \<and>
        toLowerCase (getEffectiveScheme env (lastUri_' x)) \<noteq> ''https''"
    by (auto simp: isSuccess_def isLastUriEffectiveSchemeHttp_'_def HTTP_SCHEME_PATTERN_test_def
        Let_def)
next
  assume "xhr_' x = Some h \<and> readyState h = COMPLETE_STATE \<and> status h = Val st"
  then show "getStatus x = st"
    by (simp add: getStatus_def getStatus_try_def getReadyState_def COMPLETE_STATE_def LOADED_def)
next
  assume a: "xhr_' x = Some h \<and> readyState h = COMPLETE_STATE \<and> active_' x \<and> \<not> disposed_' x \<and>
    \<not> goog_undefined env \<and> \<not> inSend_' x \<and> xhrOptions_' x = Some options \<and>
    \<not> (LOCAL_REQUEST_ERROR options \<and> status h = Val 2) \<and> \<not> errorDispatched_' x"
  then show "dispatched (onReadyStateChange_' env x) =
        dispatched x @
        [READY_STATE_CHANGE, COMPLETE, if isSuccess env x then SUCCESS else ERROR, READY]"
    by (intro handler_complete) auto
next
  assume a: "xhr_' x = Some h \<and> readyState h = COMPLETE_STATE \<and> active_' x \<and> \<not> disposed_' x \<and>
    \<not> goog_undefined env \<and> \<not> inSend_' x \<and> xhrOptions_' x = Some options \<and>
    \<not> (LOCAL_REQUEST_ERROR options \<and> status h = Val 2) \<and> \<not> errorDispatched_' x"
  assume "\<not> isSuccess env x"
  with a show "lastErrorCode_' (onReadyStateChange_' env x) = EC_HTTP_ERROR"
    by (intro handler_complete_code) auto
qed

text \<open>
  A complete response with status 0 is a success for a file URI and an HTTP error for
  an http URI.
\<close>

theorem isSuccess_classification_witness:
  "isSuccess example_platform example_local_file \<and> getStatus example_local_file = 0 \<and>
   dispatched (onReadyStateChange_' example_platform example_local_file) =
     [READY_STATE_CHANGE, COMPLETE, SUCCESS, READY] \<and>
   \<not> isSuccess example_platform (example_local_file\<lparr>lastUri_' := ''HTTP://x/y''\<rparr>) \<and>
   dispatched (onReadyStateChange_' example_platform
     (example_local_file\<lparr>lastUri_' := ''HTTP://x/y''\<rparr>)) =
     [READY_STATE_CHANGE, COMPLETE, ERROR, READY] \<and>
   lastErrorCode_' (onReadyStateChange_' example_platform
     (example_local_file\<lparr>lastUri_' := ''HTTP://x/y''\<rparr>)) = EC_HTTP_ERROR"
proof -
  let ?h = "example_xhr\<lparr>readyState := 4, status := Val 0\<rparr>"
  let ?y = "example_local_file\<lparr>lastUri_' := ''HTTP://x/y''\<rparr>"
  note t = isSuccess_classification[of example_platform example_local_file ?h 0 example_options]
  note u = isSuccess_classification[of example_platform ?y ?h 0 example_options]
  have h: "xhr_' example_local_file = Some ?h \<and> readyState ?h = COMPLETE_STATE \<and>
      status ?h = Val 0"
    "xhr_' example_local_file = Some ?h \<and> readyState ?h = COMPLETE_STATE \<and>
      active_' example_local_file \<and> \<not> disposed_' example_local_file \<and>
      \<not> goog_undefined example_platform \<and> \<not> inSend_' example_local_file \<and>
      xhrOptions_' example_local_file = Some example_options \<and>
      \<not> (LOCAL_REQUEST_ERROR example_options \<and> status ?h = Val 2) \<and>
      \<not> errorDispatched_' example_local_file"
    by (simp_all add: example_local_file_def COMPLETE_STATE_def new_XhrIo_def
        example_platform_def example_options_def)
  have h': "xhr_' ?y = Some ?h \<and> readyState ?h = COMPLETE_STATE \<and> status ?h = Val 0"
    "xhr_' ?y = Some ?h \<and> readyState ?h = COMPLETE_STATE \<and>
      active_' ?y \<and> \<not> disposed_' ?y \<and>
      \<not> goog_undefined example_platform \<and> \<not> inSend_' ?y \<and>
      xhrOptions_' ?y = Some example_options \<and>
      \<not> (LOCAL_REQUEST_ERROR example_options \<and> status ?h = Val 2) \<and>
      \<not> errorDispatched_' ?y"
    by (simp_all add: example_local_file_def COMPLETE_STATE_def new_XhrIo_def
        example_platform_def example_options_def)
  have s: "getStatus example_local_file = 0" using t h(1) by blast
  have s': "getStatus ?y = 0" using u h'(1) by blast
  have e: "toLowerCase (getEffectiveScheme example_platform (lastUri_' example_local_file)) = ''file''"
    by code_simp
  have e': "toLowerCase (getEffectiveScheme example_platform (lastUri_' ?y)) = ''http''"
    by code_simp
  have n: "\<not> HttpStatus_isSuccess example_platform 0" by (simp add: example_platform_def)
  have 1: "isSuccess example_platform example_local_file" using t s e by simp
  have 2: "\<not> isSuccess example_platform ?y" using u s' e' n by simp
  have d: "dispatched example_local_file = []" "dispatched ?y = []"
    by (simp_all add: example_local_file_def new_XhrIo_def)
  have 3: "dispatched (onReadyStateChange_' example_platform example_local_file) =
     [READY_STATE_CHANGE, COMPLETE, SUCCESS, READY]"
    using t h(2) 1 d(1) by simp
  have 4: "dispatched (onReadyStateChange_' example_platform ?y) =
     [READY_STATE_CHANGE, COMPLETE, ERROR, READY]"
    "lastErrorCode_' (onReadyStateChange_' example_platform ?y) = EC_HTTP_ERROR"
    using u h'(2) 2 d(2) by simp_all
  from 1 2 3 4 s show ?thesis by simp
qed

subsection \<open>The events of a request cycle\<close>
































text \<open>
  The case the theorem leaves out. When the transport notifies completion with a success
  status from inside \<^verbatim>\<open>open\<close> and \<^verbatim>\<open>open\<close> then throws, the handler has dispatched
  \<^verbatim>\<open>COMPLETE, SUCCESS, READY\<close> and released the handle before the catch block of \<^verbatim>\<open>send\<close>
  calls \<^verbatim>\<open>error_\<close>. \<^verbatim>\<open>errorDispatched_\<close> is not set by a success, so \<^verbatim>\<open>dispatchErrors_\<close>
  dispatches \<^verbatim>\<open>COMPLETE\<close> and \<^verbatim>\<open>ERROR\<close> as well, and \<^verbatim>\<open>cleanUpXhr_\<close>, finding no handle,
  dispatches no \<^verbatim>\<open>READY\<close>: one cycle has both outcomes.
\<close>

lemma open_completes_then_throws:
  "dispatched (snd (send example_platform
      (example_xhr\<lparr>on_open := [(4, Val 200)], open_throws := Some ''boom''\<rparr>)
      example_options ''http://x/y'' None None None new_XhrIo))
   = [READY_STATE_CHANGE, COMPLETE, SUCCESS, READY, COMPLETE, ERROR]"
  by code_simp

end
